theory Spec2Isabelle
  imports Complex_Main "HOL-Library.Char_ord" "HOL-Library.List_Lexorder" "HOL-Library.Multiset"
begin

section \<open>Values and the outside world\<close>

text \<open>
  The scraper (\<^verbatim>\<open>Delisted_Stock_Scraper.py\<close>) is sequential glue around remote services:
  Yahoo Finance (through \<^verbatim>\<open>yfinance\<close>), the Financial Modeling Prep quote API and the SEC
  JSON endpoints. The services are not part of the program, so they are a parameter of the
  model, the record \<open>world\<close> below. Each answer may depend on every request made so far
  (the log \<open>calls\<close> of the program state), so nothing is assumed about two requests
  giving the same answer.

  JSON values that the code tests for truth or compares with a number are kept dynamically
  typed: null, a number or a string. Numbers are \<open>real\<close>: floating-point rounding of
  \<^verbatim>\<open>price * shares\<close> is not modelled, the comparisons are.
\<close>

datatype pyval = PyNone | PyNum real | PyStr string

type_synonym pydict = "string \<rightharpoonup> pyval"

text \<open>\<^verbatim>\<open>d.get(k, default)\<close> and \<^verbatim>\<open>d.get(k)\<close> of a Python dict.\<close>

definition get_default :: "pydict \<Rightarrow> string \<Rightarrow> pyval \<Rightarrow> pyval" where
  "get_default d k dflt = (case d k of None \<Rightarrow> dflt | Some v \<Rightarrow> v)"

definition get_key :: "pydict \<Rightarrow> string \<Rightarrow> pyval" where
  "get_key d k = get_default d k PyNone"

text \<open>Python truthiness: \<^verbatim>\<open>None\<close>, \<^verbatim>\<open>0\<close> and \<^verbatim>\<open>''\<close> are false.\<close>

fun truthy :: "pyval \<Rightarrow> bool" where
  "truthy PyNone = False"
| "truthy (PyNum x) = (x \<noteq> 0)"
| "truthy (PyStr s) = (s \<noteq> [])"

text \<open>
  The guard \<^verbatim>\<open>v and v > 0\<close> followed by \<^verbatim>\<open>float(v)\<close>, as every strategy writes it inside
  its \<^verbatim>\<open>try\<close> block: a falsy value fails the guard, a non-empty string makes \<^verbatim>\<open>v > 0\<close>
  raise \<^verbatim>\<open>TypeError\<close>, which the enclosing \<^verbatim>\<open>except Exception\<close> turns into \<^verbatim>\<open>None\<close>.
\<close>

fun positive_number :: "pyval \<Rightarrow> real option" where
  "positive_number PyNone = None"
| "positive_number (PyNum x) = (if x \<noteq> 0 \<and> x > 0 then Some x else None)"
| "positive_number (PyStr s) = None"

text \<open>The body of an FMP quote response, after \<^verbatim>\<open>response.json()\<close>.\<close>

datatype json_body = JList "pydict list" | JDict pydict | JOther

record http_response =
  status_code :: nat
  json :: "json_body option"  \<comment> \<open>\<open>None\<close>: \<^verbatim>\<open>response.json()\<close> raises\<close>

text \<open>
  The requests the program makes, and the entry of each strategy method of the fetcher:
  a ghost log, kept to state which requests a run makes and which are never made.
\<close>

datatype call =
    Invoke string            \<comment> \<open>a strategy method of the fetcher is entered\<close>
  | YfHistory string int int \<comment> \<open>\<^verbatim>\<open>stock.history(start=..., end=...)\<close>\<close>
  | YfInfo string            \<comment> \<open>\<^verbatim>\<open>stock.info\<close>\<close>
  | FmpGet string            \<comment> \<open>\<^verbatim>\<open>session.get\<close> of the FMP quote URL of a ticker\<close>
  | SecGet string            \<comment> \<open>\<^verbatim>\<open>session.get\<close> of a registry URL\<close>
  | SecSubmissions string    \<comment> \<open>\<^verbatim>\<open>session.get\<close> of the submissions of a CIK\<close>

text \<open>One record of the company registry JSON; \<open>cik_str\<close> is \<^verbatim>\<open>str(item['cik_str'])\<close>.\<close>

record registry_item =
  cik_str :: string
  item_ticker :: string
  item_title :: string

text \<open>
  A registry response: its status and, for \<^verbatim>\<open>response.json()\<close>, either \<open>None\<close> (the call
  raises, or the value has no \<^verbatim>\<open>.values()\<close>) or the values of the JSON object in order,
  each \<open>None\<close> when a key of \<^verbatim>\<open>cik_str\<close>, \<^verbatim>\<open>ticker\<close>, \<^verbatim>\<open>title\<close> is missing.
\<close>

record registry_response =
  reg_status :: nat
  reg_items :: "registry_item option list option"

text \<open>\<^verbatim>\<open>filings.recent\<close> of a submissions document: parallel sequences, a key may be absent.\<close>

record recent_filings =
  form :: "string list option"
  filingDate :: "string list option"
  accessionNumber :: "string list option"
  primaryDocument :: "string list option"

text \<open>
  A submissions document: \<open>None\<close> when the key \<^verbatim>\<open>filings\<close> is absent, \<open>Some None\<close> when
  \<^verbatim>\<open>filings\<close> has no key \<^verbatim>\<open>recent\<close>.
\<close>

record submissions =
  sub_filings :: "recent_filings option option"  \<comment> \<open>the key \<^verbatim>\<open>filings\<close>\<close>

record world =
  strptime :: "string \<Rightarrow> int option"
    \<comment> \<open>\<^verbatim>\<open>datetime.strptime(s, '%Y-%m-%d')\<close> as a day number; \<open>None\<close>: \<^verbatim>\<open>ValueError\<close>\<close>
  yf_history :: "call list \<Rightarrow> string \<Rightarrow> int \<Rightarrow> int \<Rightarrow> real list option"
    \<comment> \<open>the \<^verbatim>\<open>Close\<close> column of the window; \<open>None\<close>: the call raises\<close>
  yf_info :: "call list \<Rightarrow> string \<Rightarrow> pydict option"
    \<comment> \<open>the numeric fields of \<^verbatim>\<open>stock.info\<close> and \<^verbatim>\<open>exchange\<close>; \<open>None\<close>: the call raises\<close>
  fmp_get :: "call list \<Rightarrow> string \<Rightarrow> http_response option"
    \<comment> \<open>\<open>None\<close>: timeout or another request exception\<close>
  sec_get :: "call list \<Rightarrow> string \<Rightarrow> registry_response option"
  sec_submissions :: "call list \<Rightarrow> string \<Rightarrow> submissions option"
    \<comment> \<open>\<open>None\<close>: request error, error status or unparseable body\<close>

section \<open>Program state\<close>

text \<open>The dict \<^verbatim>\<open>self.stats\<close> of \<^verbatim>\<open>OptimizedMarketCapFetcher\<close>.\<close>

record resolver_stats =
  yahoo_current :: int
  yahoo_historical :: int
  fmp_api :: int
  calculated :: int
  failed :: int
  total_count :: int  \<comment> \<open>the key \<^verbatim>\<open>'total'\<close>\<close>

text \<open>
  The scraper object with the fetcher it owns (\<^verbatim>\<open>self.market_cap_fetcher\<close>), flattened,
  and the ghost log of requests.
\<close>

record state =
  fmp_api_key :: "string option"
  fmp_api_working :: bool
  stats :: resolver_stats
  target_exchanges :: "string list"
  ticker_to_exchange :: "string \<rightharpoonup> string"
  calls :: "call list"

definition logc :: "call \<Rightarrow> state \<Rightarrow> state" where
  "logc c s = s\<lparr>calls := calls s @ [c]\<rparr>"

text \<open>\<^verbatim>\<open>if self.fmp_api_key\<close>: the key is neither \<^verbatim>\<open>None\<close> nor empty.\<close>

definition key_given :: "state \<Rightarrow> bool" where
  "key_given s = (case fmp_api_key s of None \<Rightarrow> False | Some k \<Rightarrow> k \<noteq> [])"

section \<open>The market-cap fetcher\<close>

text \<open>The sanity check of lines 177 and 297: \<^verbatim>\<open>1_000 < market_cap < 1_000_000_000_000\<close>.\<close>

definition sanity_check :: "real \<Rightarrow> bool" where
  "sanity_check market_cap = (1000 < market_cap \<and> market_cap < 1000000000000)"

text \<open>
  Lines 174-180 and 293-300: \<^verbatim>\<open>if shares and shares > 0 and close_price > 0\<close>, the product
  and its sanity check.
\<close>

definition price_times_shares :: "real \<Rightarrow> pyval \<Rightarrow> real option" where
  "price_times_shares close_price shares =
     (case positive_number shares of
        None \<Rightarrow> None
      | Some sh \<Rightarrow>
          if close_price > 0
          then (let market_cap = close_price * sh
                in if sanity_check market_cap then Some market_cap else None)
          else None)"

definition get_yahoo_historical :: "world \<Rightarrow> state \<Rightarrow> string \<Rightarrow> string \<Rightarrow> real option \<times> state" where
  "get_yahoo_historical w s0 ticker date =
     (let s1 = logc (Invoke ''_get_yahoo_historical'') s0 in
      case strptime w date of
        None \<Rightarrow> (None, s1)
      | Some date_obj \<Rightarrow>
          let start_date = date_obj - 60;
              end_date = date_obj + 1;
              hist = yf_history w (calls s1) ticker start_date end_date;
              s2 = logc (YfHistory ticker start_date end_date) s1
          in (case hist of
                None \<Rightarrow> (None, s2)
              | Some closes \<Rightarrow>
                  if closes = [] then (None, s2)
                  else
                    let close_price = last closes;
                        info = yf_info w (calls s2) ticker;
                        s3 = logc (YfInfo ticker) s2
                    in (case info of
                          None \<Rightarrow> (None, s3)
                        | Some d \<Rightarrow>
                            (price_times_shares close_price
                               (get_key d ''sharesOutstanding''), s3))))"

definition get_yahoo_current :: "world \<Rightarrow> state \<Rightarrow> string \<Rightarrow> real option \<times> state" where
  "get_yahoo_current w s0 ticker =
     (let s1 = logc (Invoke ''_get_yahoo_current'') s0;
          info = yf_info w (calls s1) ticker;
          s2 = logc (YfInfo ticker) s1
      in case info of
           None \<Rightarrow> (None, s2)
         | Some d \<Rightarrow> (positive_number (get_key d ''marketCap''), s2))"

definition get_from_fmp :: "world \<Rightarrow> state \<Rightarrow> string \<Rightarrow> string \<Rightarrow> real option \<times> state" where
  "get_from_fmp w s0 ticker date =
     (let s1 = logc (Invoke ''_get_from_fmp'') s0 in
      if \<not> key_given s1 then (None, s1)
      else
        let response = fmp_get w (calls s1) ticker;
            s2 = logc (FmpGet ticker) s1
        in case response of
             None \<Rightarrow> (None, s2)
           | Some r \<Rightarrow>
               if status_code r = 401 then (None, s2\<lparr>fmp_api_working := False\<rparr>)
               else if status_code r = 403 then (None, s2)
               else if status_code r = 429 then (None, s2\<lparr>fmp_api_working := False\<rparr>)
               else if status_code r = 200 then
                 (case json r of
                    Some (JList (item # rest)) \<Rightarrow>
                      (positive_number (get_default item ''marketCap'' (PyNum 0)), s2)
                  | _ \<Rightarrow> (None, s2))
               else (None, s2))"

definition calculate_from_yahoo_data :: "world \<Rightarrow> state \<Rightarrow> string \<Rightarrow> string \<Rightarrow> real option \<times> state" where
  "calculate_from_yahoo_data w s0 ticker date =
     (let s1 = logc (Invoke ''_calculate_from_yahoo_data'') s0 in
      case strptime w date of
        None \<Rightarrow> (None, s1)
      | Some date_obj \<Rightarrow>
          let start_date = date_obj - 90;
              end_date = date_obj + 1;
              hist = yf_history w (calls s1) ticker start_date end_date;
              s2 = logc (YfHistory ticker start_date end_date) s1
          in (case hist of
                None \<Rightarrow> (None, s2)
              | Some closes \<Rightarrow>
                  if closes = [] then (None, s2)
                  else
                    let close_price = last closes;
                        info = yf_info w (calls s2) ticker;
                        s3 = logc (YfInfo ticker) s2
                    in (case info of
                          None \<Rightarrow> (None, s3)
                        | Some d \<Rightarrow>
                            let shares = get_key d ''sharesOutstanding'';
                                shares' = (if \<not> truthy shares
                                           then get_default d ''shares''
                                                  (get_key d ''impliedSharesOutstanding'')
                                           else shares)
                            in (price_times_shares close_price shares', s3))))"

definition bump_total :: "state \<Rightarrow> state" where
  "bump_total s = s\<lparr>stats := (stats s)\<lparr>total_count := total_count (stats s) + 1\<rparr>\<rparr>"

definition bump_yahoo_historical :: "state \<Rightarrow> state" where
  "bump_yahoo_historical s =
     s\<lparr>stats := (stats s)\<lparr>yahoo_historical := yahoo_historical (stats s) + 1\<rparr>\<rparr>"

definition bump_fmp_api :: "state \<Rightarrow> state" where
  "bump_fmp_api s = s\<lparr>stats := (stats s)\<lparr>fmp_api := fmp_api (stats s) + 1\<rparr>\<rparr>"

definition bump_calculated :: "state \<Rightarrow> state" where
  "bump_calculated s = s\<lparr>stats := (stats s)\<lparr>calculated := calculated (stats s) + 1\<rparr>\<rparr>"

definition bump_yahoo_current :: "state \<Rightarrow> state" where
  "bump_yahoo_current s =
     s\<lparr>stats := (stats s)\<lparr>yahoo_current := yahoo_current (stats s) + 1\<rparr>\<rparr>"

definition bump_failed :: "state \<Rightarrow> state" where
  "bump_failed s = s\<lparr>stats := (stats s)\<lparr>failed := failed (stats s) + 1\<rparr>\<rparr>"

text \<open>
  \<^verbatim>\<open>get_market_cap\<close>, lines 103-146. The third argument \<^verbatim>\<open>company_name\<close> is only logged.
\<close>

definition get_market_cap ::
  "world \<Rightarrow> state \<Rightarrow> string \<Rightarrow> string \<Rightarrow> (real option \<times> string) \<times> state" where
  "get_market_cap w s ticker date =
     (let s0 = bump_total s in
      case get_yahoo_historical w s0 ticker date of
        (Some result, s1) \<Rightarrow> ((Some result, ''yahoo_historical''), bump_yahoo_historical s1)
      | (None, s1) \<Rightarrow>
          (case (if key_given s1 \<and> fmp_api_working s1
                 then get_from_fmp w s1 ticker date else (None, s1)) of
             (Some result, s2) \<Rightarrow> ((Some result, ''fmp_api''), bump_fmp_api s2)
           | (None, s2) \<Rightarrow>
               (case calculate_from_yahoo_data w s2 ticker date of
                  (Some result, s3) \<Rightarrow> ((Some result, ''calculated''), bump_calculated s3)
                | (None, s3) \<Rightarrow>
                    (case get_yahoo_current w s3 ticker of
                       (Some result, s4) \<Rightarrow>
                         ((Some result, ''yahoo_current''), bump_yahoo_current s4)
                     | (None, s4) \<Rightarrow> ((None, ''none''), bump_failed s4)))))"

text \<open>\<^verbatim>\<open>_validate_fmp_api_key\<close>, lines 67-101: one test request for the quote of AAPL.\<close>

definition validate_fmp_api_key :: "world \<Rightarrow> state \<Rightarrow> bool \<times> state" where
  "validate_fmp_api_key w s0 =
     (let response = fmp_get w (calls s0) ''AAPL'';
          s1 = logc (FmpGet ''AAPL'') s0
      in case response of
           None \<Rightarrow> (False, s1)
         | Some r \<Rightarrow>
             if status_code r = 200 then
               (case json r of
                  None \<Rightarrow> (False, s1)
                | Some (JList (item # rest)) \<Rightarrow> (item ''marketCap'' \<noteq> None, s1)
                | Some _ \<Rightarrow> (False, s1))
             else (False, s1))"

text \<open>
  \<^verbatim>\<open>OptimizedMarketCapFetcher.__init__\<close> inside \<^verbatim>\<open>SECDelistingScraperOptimized.__init__\<close>:
  the counters start at zero, the key is validated when one is given, the target exchanges
  default to NYSE, NASDAQ and AMEX when the argument is \<^verbatim>\<open>None\<close> or empty, and the exchange
  cache starts empty.
\<close>

definition init_scraper :: "world \<Rightarrow> string option \<Rightarrow> string list option \<Rightarrow> state" where
  "init_scraper w key targets =
     (let s0 = \<lparr>fmp_api_key = key, fmp_api_working = False,
                 stats = \<lparr>yahoo_current = 0, yahoo_historical = 0, fmp_api = 0,
                           calculated = 0, failed = 0, total_count = 0\<rparr>,
                 target_exchanges = [], ticker_to_exchange = Map.empty, calls = []\<rparr>;
          s1 = (if key_given s0
                then (case validate_fmp_api_key w s0 of
                        (True, s) \<Rightarrow> s\<lparr>fmp_api_working := True\<rparr>
                      | (False, s) \<Rightarrow> s)
                else s0)
      in s1\<lparr>target_exchanges :=
              (case targets of
                 None \<Rightarrow> [''NYSE'', ''NASDAQ'', ''AMEX'']
               | Some [] \<Rightarrow> [''NYSE'', ''NASDAQ'', ''AMEX'']
               | Some xs \<Rightarrow> xs)\<rparr>)"

section \<open>The scraper\<close>

text \<open>\<^verbatim>\<open>str.upper()\<close> on ASCII letters (a \<open>char\<close> is a byte).\<close>

definition upper_char :: "char \<Rightarrow> char" where
  "upper_char c =
     (case map_of (zip ''abcdefghijklmnopqrstuvwxyz'' ''ABCDEFGHIJKLMNOPQRSTUVWXYZ'') c of
        None \<Rightarrow> c
      | Some u \<Rightarrow> u)"

definition upper :: "string \<Rightarrow> string" where
  "upper s = map upper_char s"

text \<open>The dict \<^verbatim>\<open>exchange_mapping\<close> of lines 391-402.\<close>

definition exchange_mapping :: "string \<rightharpoonup> string" where
  "exchange_mapping =
     map_of [(''NYQ'', ''NYSE''), (''NYSE'', ''NYSE''), (''NMS'', ''NASDAQ''),
             (''NASDAQ'', ''NASDAQ''), (''NGM'', ''NASDAQ''), (''NAS'', ''NASDAQ''),
             (''ASE'', ''AMEX''), (''AMEX'', ''AMEX''), (''PCX'', ''NYSE ARCA''),
             (''NYE'', ''NYSE'')]"

text \<open>
  \<^verbatim>\<open>_get_ticker_exchange\<close>, lines 368-420. A value of \<^verbatim>\<open>exchange\<close> that is not a string has
  no \<^verbatim>\<open>.upper()\<close>: the exception is caught and the result is \<^verbatim>\<open>None\<close>.
\<close>

definition get_ticker_exchange :: "world \<Rightarrow> state \<Rightarrow> string \<Rightarrow> string option \<times> state" where
  "get_ticker_exchange w s0 ticker =
     (case ticker_to_exchange s0 ticker of
        Some cached \<Rightarrow> (Some cached, s0)
      | None \<Rightarrow>
          let info = yf_info w (calls s0) ticker;
              s1 = logc (YfInfo ticker) s0
          in (case info of
                None \<Rightarrow> (None, s1)
              | Some d \<Rightarrow>
                  (case get_default d ''exchange'' (PyStr []) of
                     PyStr raw \<Rightarrow>
                       (case exchange_mapping (upper raw) of
                          None \<Rightarrow> (None, s1)
                        | Some exchange \<Rightarrow>
                            if exchange \<noteq> []
                            then (Some exchange,
                                  s1\<lparr>ticker_to_exchange :=
                                       (ticker_to_exchange s1)(ticker \<mapsto> exchange)\<rparr>)
                            else (None, s1))
                   | _ \<Rightarrow> (None, s1))))"

text \<open>\<^verbatim>\<open>str.zfill(width)\<close>: zeros go after a leading sign.\<close>

definition zfill :: "nat \<Rightarrow> string \<Rightarrow> string" where
  "zfill width s =
     (if width \<le> length s then s
      else (case s of
              [] \<Rightarrow> replicate width (CHR ''0'')
            | c # r \<Rightarrow>
                if c = CHR ''+'' \<or> c = CHR ''-''
                then c # replicate (width - length s) (CHR ''0'') @ r
                else replicate (width - length s) (CHR ''0'') @ s))"

record company_info =
  info_ticker :: string
  info_title :: string
  info_cik :: string

text \<open>\<^verbatim>\<open>d[k] = v\<close> on a dict kept in insertion order.\<close>

fun dict_set :: "'k \<Rightarrow> 'v \<Rightarrow> ('k \<times> 'v) list \<Rightarrow> ('k \<times> 'v) list" where
  "dict_set k v [] = [(k, v)]"
| "dict_set k v ((k', v') # rest) =
     (if k' = k then (k, v) # rest else (k', v') # dict_set k v rest)"

text \<open>
  The loop of lines 443-450 over \<^verbatim>\<open>data.values()\<close>; \<open>None\<close> when an item lacks a key
  (\<^verbatim>\<open>KeyError\<close>, caught by the \<^verbatim>\<open>except Exception\<close> of the endpoint loop).
\<close>

fun load_items ::
  "registry_item option list \<Rightarrow> (string \<times> company_info) list \<Rightarrow>
   (string \<times> company_info) list option" where
  "load_items [] cik_to_ticker = Some cik_to_ticker"
| "load_items (None # rest) cik_to_ticker = None"
| "load_items (Some item # rest) cik_to_ticker =
     (let cik = zfill 10 (cik_str item)
      in load_items rest
           (dict_set cik \<lparr>info_ticker = item_ticker item, info_title = item_title item,
                          info_cik = cik\<rparr> cik_to_ticker))"

definition endpoints :: "string list" where
  "endpoints =
     [''https://www.sec.gov/files/company_tickers.json'',
      ''https://data.sec.gov/files/company_tickers.json'',
      ''https://www.sec.gov/files/company_tickers_exchange.json'']"

text \<open>The loop of lines 433-462 over the endpoints still to try.\<close>

fun try_endpoints ::
  "world \<Rightarrow> state \<Rightarrow> string list \<Rightarrow> (string \<times> company_info) list \<times> state" where
  "try_endpoints w s [] = ([], s)"
| "try_endpoints w s (url # rest) =
     (let response = sec_get w (calls s) url;
          s1 = logc (SecGet url) s
      in (case response of
            None \<Rightarrow> try_endpoints w s1 rest
          | Some r \<Rightarrow>
              if reg_status r = 200
              then (case reg_items r of
                      None \<Rightarrow> try_endpoints w s1 rest
                    | Some items \<Rightarrow>
                        (case load_items items [] of
                           None \<Rightarrow> try_endpoints w s1 rest
                         | Some cik_to_ticker \<Rightarrow> (cik_to_ticker, s1)))
              else try_endpoints w s1 rest))"

definition get_company_tickers :: "world \<Rightarrow> state \<Rightarrow> (string \<times> company_info) list \<times> state" where
  "get_company_tickers w s = try_endpoints w s endpoints"

text \<open>\<^verbatim>\<open>get_submissions_for_cik\<close>: every failure gives the empty dict, here \<open>None\<close>.\<close>

definition get_submissions_for_cik :: "world \<Rightarrow> state \<Rightarrow> string \<Rightarrow> submissions option \<times> state" where
  "get_submissions_for_cik w s cik =
     (sec_submissions w (calls s) cik, logc (SecSubmissions cik) s)"

text \<open>The dict \<^verbatim>\<open>filing_info\<close> of lines 574-596, after the two market-cap fields are set.\<close>

record filing_info =
  ticker :: string
  company_name :: string
  cik :: string
  exchange :: string
  form_type :: string
  filing_date :: string
  accession_number :: string
  primary_document :: string
  market_cap :: "real option"
  market_cap_source :: string

text \<open>Exceptions that \<^verbatim>\<open>find_form25_filings_with_market_cap\<close> does not catch.\<close>

datatype error = KeyError | IndexError | ValueError

text \<open>\<^verbatim>\<open>recent_filings[key][i]\<close>.\<close>

definition index :: "'a list option \<Rightarrow> nat \<Rightarrow> error + 'a" where
  "index column i =
     (case column of
        None \<Rightarrow> Inl KeyError
      | Some xs \<Rightarrow> if i < length xs then Inr (xs ! i) else Inl IndexError)"

text \<open>The local variables of \<^verbatim>\<open>find_form25_filings_with_market_cap\<close> that the loops update.\<close>

record collection =
  all_filings :: "filing_info list"
  filings_with_market_cap :: "filing_info list"
  skipped_exchange :: int
  skipped_no_exchange :: int

text \<open>One pass of the loop over the filings of a company, lines 545-603.\<close>

definition check_filing ::
  "world \<Rightarrow> real \<Rightarrow> int \<Rightarrow> int \<Rightarrow> string \<Rightarrow> company_info \<Rightarrow> recent_filings \<Rightarrow> nat \<Rightarrow>
   collection \<times> state \<Rightarrow> error + collection \<times> state" where
  "check_filing w max_market_cap start_dt end_dt cik_key company recent i a =
     (case a of (acc, s) \<Rightarrow>
     (case index (form recent) i of
        Inl e \<Rightarrow> Inl e
      | Inr ftype \<Rightarrow>
     (case index (filingDate recent) i of
        Inl e \<Rightarrow> Inl e
      | Inr fdate \<Rightarrow>
          if ftype \<notin> set [''25'', ''25-NSE''] then Inr (acc, s)
          else
     (case strptime w fdate of
        None \<Rightarrow> Inl ValueError
      | Some filing_dt \<Rightarrow>
          if \<not> (start_dt \<le> filing_dt \<and> filing_dt \<le> end_dt) then Inr (acc, s)
          else
     (case get_ticker_exchange w s (info_ticker company) of
        (None, s1) \<Rightarrow>
          Inr (acc\<lparr>skipped_no_exchange := skipped_no_exchange acc + 1\<rparr>, s1)
      | (Some ex, s1) \<Rightarrow>
          if ex \<noteq> [] \<and> ex \<notin> set (target_exchanges s1)
          then Inr (acc\<lparr>skipped_exchange := skipped_exchange acc + 1\<rparr>, s1)
          else if ex = []
          then Inr (acc\<lparr>skipped_no_exchange := skipped_no_exchange acc + 1\<rparr>, s1)
          else
     (case index (accessionNumber recent) i of
        Inl e \<Rightarrow> Inl e
      | Inr accession \<Rightarrow>
     (case index (primaryDocument recent) i of
        Inl e \<Rightarrow> Inl e
      | Inr document \<Rightarrow>
     (case get_market_cap w s1 (info_ticker company) fdate of
        ((cap, source), s2) \<Rightarrow>
          let filing = \<lparr>ticker = info_ticker company, company_name = info_title company,
                        cik = cik_key, exchange = ex, form_type = ftype, filing_date = fdate,
                        accession_number = accession, primary_document = document,
                        market_cap = cap, market_cap_source = source\<rparr>;
              acc1 = acc\<lparr>all_filings := all_filings acc @ [filing]\<rparr>
          in if (case cap of None \<Rightarrow> False | Some m \<Rightarrow> m < max_market_cap)
             then Inr (acc1\<lparr>filings_with_market_cap :=
                              filings_with_market_cap acc1 @ [filing]\<rparr>, s2)
             else Inr (acc1, s2)))))))))"

text \<open>The loop \<^verbatim>\<open>for i in range(len(recent_filings.get('form', [])))\<close>.\<close>

fun check_filings ::
  "world \<Rightarrow> real \<Rightarrow> int \<Rightarrow> int \<Rightarrow> string \<Rightarrow> company_info \<Rightarrow> recent_filings \<Rightarrow> nat list \<Rightarrow>
   collection \<times> state \<Rightarrow> error + collection \<times> state" where
  "check_filings w m sd ed c company recent [] a = Inr a"
| "check_filings w m sd ed c company recent (i # rest) a =
     (case check_filing w m sd ed c company recent i a of
        Inl e \<Rightarrow> Inl e
      | Inr a' \<Rightarrow> check_filings w m sd ed c company recent rest a')"

text \<open>One pass of the loop over the registry, lines 520-606.\<close>

definition process_company ::
  "world \<Rightarrow> real \<Rightarrow> int \<Rightarrow> int \<Rightarrow> string \<times> company_info \<Rightarrow>
   collection \<times> state \<Rightarrow> error + collection \<times> state" where
  "process_company w m sd ed entry a =
     (case entry of (cik_key, company) \<Rightarrow>
      case a of (acc, s) \<Rightarrow>
      case get_submissions_for_cik w s cik_key of (subs, s1) \<Rightarrow>
        (case subs of
           None \<Rightarrow> Inr (acc, s1)
         | Some sub \<Rightarrow>
             (case sub_filings sub of
                None \<Rightarrow> Inr (acc, s1)
              | Some None \<Rightarrow> Inr (acc, s1)
              | Some (Some recent) \<Rightarrow>
                  if form recent = None \<and> filingDate recent = None \<and>
                     accessionNumber recent = None \<and> primaryDocument recent = None
                  then Inr (acc, s1)
                  else check_filings w m sd ed cik_key company recent
                         [0..<length (case form recent of None \<Rightarrow> [] | Some fs \<Rightarrow> fs)]
                         (acc, s1))))"

fun process_companies ::
  "world \<Rightarrow> real \<Rightarrow> int \<Rightarrow> int \<Rightarrow> (string \<times> company_info) list \<Rightarrow>
   collection \<times> state \<Rightarrow> error + collection \<times> state" where
  "process_companies w m sd ed [] a = Inr a"
| "process_companies w m sd ed (entry # rest) a =
     (case process_company w m sd ed entry a of
        Inl e \<Rightarrow> Inl e
      | Inr a' \<Rightarrow> process_companies w m sd ed rest a')"

text \<open>
  \<^verbatim>\<open>find_form25_filings_with_market_cap\<close>, lines 481-612: \<open>Inl\<close> when an exception leaves
  the method, else the two lists it returns and the state after the run.
\<close>

definition find_form25_filings_with_market_cap ::
  "world \<Rightarrow> state \<Rightarrow> string \<Rightarrow> string \<Rightarrow> real \<Rightarrow>
   error + (filing_info list \<times> filing_info list) \<times> state" where
  "find_form25_filings_with_market_cap w s start_date end_date max_market_cap =
     (case get_company_tickers w s of (cik_to_ticker, s1) \<Rightarrow>
      (case strptime w start_date of
         None \<Rightarrow> Inl ValueError
       | Some start_dt \<Rightarrow>
      (case strptime w end_date of
         None \<Rightarrow> Inl ValueError
       | Some end_dt \<Rightarrow>
      (case process_companies w max_market_cap start_dt end_dt cik_to_ticker
              (\<lparr>all_filings = [], filings_with_market_cap = [],
                skipped_exchange = 0, skipped_no_exchange = 0\<rparr>, s1) of
         Inl e \<Rightarrow> Inl e
       | Inr (acc, s2) \<Rightarrow> Inr ((all_filings acc, filings_with_market_cap acc), s2)))))"

section \<open>Output\<close>

text \<open>What a file holds: the rows of a data frame, or its ticker column alone.\<close>

datatype file_content = Rows "filing_info list" | Symbols "string list"

text \<open>\<^verbatim>\<open>df.drop_duplicates(subset=['ticker'], keep='first')\<close>.\<close>

fun keep_first :: "string list \<Rightarrow> filing_info list \<Rightarrow> filing_info list" where
  "keep_first seen [] = []"
| "keep_first seen (row # rest) =
     (if ticker row \<in> set seen then keep_first seen rest
      else row # keep_first (ticker row # seen) rest)"

definition drop_duplicates :: "filing_info list \<Rightarrow> filing_info list" where
  "drop_duplicates df = keep_first [] df"

text \<open>\<^verbatim>\<open>output_file.replace('.csv', '_symbols_only.csv')\<close>: every occurrence, left to right.\<close>

fun replace_csv :: "string \<Rightarrow> string" where
  "replace_csv [] = []"
| "replace_csv (c # r) =
     (if take 4 (c # r) = ''.csv'' then ''_symbols_only.csv'' @ replace_csv (drop 3 r)
      else c # replace_csv r)"

text \<open>
  \<^verbatim>\<open>save_to_csv\<close>, lines 614-643, as the list of files it writes, in order. The sort
  \<^verbatim>\<open>df.sort_values('filing_date', ascending=False)\<close> is the parameter \<open>sort_values\<close>: pandas
  sorts with quicksort by default, which fixes no order among rows of equal date.
  The dates are compared as the strings they are.
\<close>

definition save_to_csv ::
  "(filing_info list \<Rightarrow> filing_info list) \<Rightarrow> filing_info list \<Rightarrow> string \<Rightarrow>
   (string \<times> file_content) list" where
  "save_to_csv sort_values filings output_file =
     (if filings = [] then []
      else
        let df = sort_values filings;
            df_unique = drop_duplicates df;
            symbols_file = replace_csv output_file;
            df_symbols = sort (map ticker df_unique)
        in [(output_file, Rows df_unique), (symbols_file, Symbols df_symbols)])"

text \<open>What \<open>sort_values\<close> is known to do: a rearrangement, latest date first.\<close>

definition sorts_by_filing_date_descending :: "(filing_info list \<Rightarrow> filing_info list) \<Rightarrow> bool" where
  "sorts_by_filing_date_descending sort_values =
     (\<forall>df. mset (sort_values df) = mset df \<and>
           sorted_wrt (\<lambda>a b. filing_date b \<le> filing_date a) (sort_values df))"

text \<open>\<^verbatim>\<open>os.path.join(output_dir, name)\<close> for a relative file name, on POSIX.\<close>

definition path_join :: "string \<Rightarrow> string \<Rightarrow> string" where
  "path_join dir name =
     (if dir = [] \<or> last dir = CHR ''/'' then dir @ name else dir @ ''/'' @ name)"

text \<open>
  \<^verbatim>\<open>main\<close>, lines 684-770, as the files it writes. No FMP key is configured; the output
  directory (the folder \<^verbatim>\<open>outputs\<close> next to the script) is a parameter.
\<close>

definition main ::
  "world \<Rightarrow> (filing_info list \<Rightarrow> filing_info list) \<Rightarrow> string \<Rightarrow>
   error + (string \<times> file_content) list" where
  "main w sort_values output_dir =
     (let scraper = init_scraper w None (Some [''NYSE'', ''NASDAQ'', ''AMEX'', ''NYSE AMERICAN''])
      in (case find_form25_filings_with_market_cap w scraper ''2015-01-01'' ''2024-12-31''
                 2000000000 of
            Inl e \<Rightarrow> Inl e
          | Inr ((all, small_caps), s) \<Rightarrow>
              if all = [] then Inr []
              else Inr (save_to_csv sort_values all
                          (path_join output_dir ''delisted_all_2015_2024.csv'') @
                        (if small_caps \<noteq> []
                         then save_to_csv sort_values small_caps
                                (path_join output_dir ''delisted_small_caps_2015_2024.csv'')
                         else []))))"

section \<open>Reading the log, and the resolver as the specification words it\<close>

text \<open>The strategy methods entered, and the tickers requested from the FMP API, in a log.\<close>

fun invoked :: "call list \<Rightarrow> string list" where
  "invoked [] = []"
| "invoked (Invoke name # cs) = name # invoked cs"
| "invoked (c # cs) = invoked cs"

fun fmp_requests :: "call list \<Rightarrow> string list" where
  "fmp_requests [] = []"
| "fmp_requests (FmpGet t # cs) = t # fmp_requests cs"
| "fmp_requests (c # cs) = fmp_requests cs"

text \<open>The requests a step added: the log \<open>after\<close> without the log \<open>before\<close>.\<close>

definition new_calls :: "state \<Rightarrow> state \<Rightarrow> call list" where
  "new_calls before after = drop (length (calls before)) (calls after)"

text \<open>Resolving a list of (ticker, date) pairs one after the other.\<close>

fun resolve_many :: "world \<Rightarrow> state \<Rightarrow> (string \<times> string) list \<Rightarrow> state" where
  "resolve_many w s [] = s"
| "resolve_many w s ((t, d) # rest) = resolve_many w (snd (get_market_cap w s t d)) rest"

text \<open>
  The specification's resolver: strategies tried in the order of the list, the first value
  wins and is returned with the name of its strategy; \<open>none\<close> when the list is exhausted.
\<close>

fun first_success ::
  "(string \<times> (state \<Rightarrow> real option \<times> state)) list \<Rightarrow> state \<Rightarrow>
   (real option \<times> string) \<times> state" where
  "first_success [] s = ((None, ''none''), s)"
| "first_success ((name, strategy) # rest) s =
     (case strategy s of
        (Some v, s') \<Rightarrow> ((Some v, name), s')
      | (None, s') \<Rightarrow> first_success rest s')"

definition record_outcome :: "string \<Rightarrow> state \<Rightarrow> state" where
  "record_outcome name s =
     (if name = ''yahoo_historical'' then bump_yahoo_historical s
      else if name = ''fmp_api'' then bump_fmp_api s
      else if name = ''calculated'' then bump_calculated s
      else if name = ''yahoo_current'' then bump_yahoo_current s
      else bump_failed s)"

definition resolve_spec ::
  "world \<Rightarrow> state \<Rightarrow> string \<Rightarrow> string \<Rightarrow> (real option \<times> string) \<times> state" where
  "resolve_spec w s t d =
     (case first_success
             [(''yahoo_historical'', \<lambda>s. get_yahoo_historical w s t d),
              (''fmp_api'', \<lambda>s. if key_given s \<and> fmp_api_working s
                                then get_from_fmp w s t d else (None, s)),
              (''calculated'', \<lambda>s. calculate_from_yahoo_data w s t d),
              (''yahoo_current'', \<lambda>s. get_yahoo_current w s t)]
             (bump_total s) of
        (r, s') \<Rightarrow> (r, record_outcome (snd r) s'))"

text \<open>The invariant of the run statistics.\<close>

definition stats_consistent :: "resolver_stats \<Rightarrow> bool" where
  "stats_consistent st =
     (total_count st =
        yahoo_historical st + fmp_api st + calculated st + yahoo_current st + failed st)"

section \<open>Auxiliary notions\<close>

text \<open>What a step leaves alone: everything but the log (and, for FMP, the working flag).\<close>

definition same_fields :: "state \<Rightarrow> state \<Rightarrow> bool" where
  "same_fields s s' =
     (fmp_api_key s' = fmp_api_key s \<and> stats s' = stats s \<and>
      target_exchanges s' = target_exchanges s \<and>
      ticker_to_exchange s' = ticker_to_exchange s)"

text \<open>The FMP strategy is part of a call only when a key is given and the flag is set.\<close>

definition fmp_part :: "state \<Rightarrow> string list" where
  "fmp_part s = (if key_given s \<and> fmp_api_working s then [''_get_from_fmp''] else [])"

text \<open>The test of line 602: a market cap is present and below the threshold.\<close>

definition small_cap :: "real \<Rightarrow> filing_info \<Rightarrow> bool" where
  "small_cap threshold e = (case market_cap e of None \<Rightarrow> False | Some m \<Rightarrow> m < threshold)"

text \<open>
  A world for examples: every price history is the single close \<open>price\<close>, every ticker
  has \<open>shares\<close> shares outstanding, and the FMP and SEC services do not answer.
\<close>

definition quote_world :: "real \<Rightarrow> real \<Rightarrow> world" where
  "quote_world price shares =
     \<lparr>strptime = (\<lambda>d. Some 0),
      yf_history = (\<lambda>cs t a b. Some [price]),
      yf_info = (\<lambda>cs t. Some [''sharesOutstanding'' \<mapsto> PyNum shares]),
      fmp_get = (\<lambda>cs t. None),
      sec_get = (\<lambda>cs u. None),
      sec_submissions = (\<lambda>cs c. None)\<rparr>"

text \<open>
  A property of the two lists and the state is kept by a collection run when the steps of
  the run keep it: logging a request to the SEC, looking an exchange up and skipping the
  filing, and looking an exchange up, resolving the market cap and appending the filing.
\<close>

definition kept_by_steps ::
  "world \<Rightarrow> real \<Rightarrow> (filing_info list \<Rightarrow> filing_info list \<Rightarrow> state \<Rightarrow> bool) \<Rightarrow> bool" where
  "kept_by_steps w m I =
     ((\<forall>al sm s c. I al sm s \<longrightarrow>
         I al sm (logc (SecSubmissions c) s) \<and> I al sm (logc (SecGet c) s)) \<and>
      (\<forall>al sm s tk ex s1. I al sm s \<longrightarrow> get_ticker_exchange w s tk = (ex, s1) \<longrightarrow>
         (case ex of None \<Rightarrow> True | Some x \<Rightarrow> x = [] \<or> x \<notin> set (target_exchanges s1)) \<longrightarrow>
         I al sm s1) \<and>
      (\<forall>al sm s tk ex s1 cap src s2 f. I al sm s \<longrightarrow>
         get_ticker_exchange w s tk = (Some ex, s1) \<longrightarrow> ex \<noteq> [] \<longrightarrow>
         ex \<in> set (target_exchanges s1) \<longrightarrow>
         get_market_cap w s1 tk (filing_date f) = ((cap, src), s2) \<longrightarrow>
         ticker f = tk \<longrightarrow> exchange f = ex \<longrightarrow> market_cap f = cap \<longrightarrow>
         market_cap_source f = src \<longrightarrow>
         I (al @ [f]) (sm @ filter (small_cap m) [f]) s2))"

text \<open>
  A world for the end-to-end scenario of the specification: the first registry endpoint
  does not answer, the second lists one company (Acme Corp, ticker ABCD); its filing
  history holds a 10-K and a Form 25 of 2020-06-15; Yahoo Finance reports the exchange code
  \<^verbatim>\<open>nms\<close>, an empty price history for the 60-day window, a close of 10 for the 90-day
  window, and 5,000,000 shares outstanding.
\<close>

definition acme_world :: world where
  "acme_world =
     \<lparr>strptime = (\<lambda>d. if d = ''2015-01-01'' then Some 16436
                      else if d = ''2020-06-15'' then Some 18428
                      else if d = ''2024-12-31'' then Some 20088 else None),
      yf_history = (\<lambda>cs t a b. if b - a = 61 then Some [] else Some [10]),
      yf_info = (\<lambda>cs t. Some [''sharesOutstanding'' \<mapsto> PyNum 5000000,
                               ''exchange'' \<mapsto> PyStr ''nms'']),
      fmp_get = (\<lambda>cs t. None),
      sec_get = (\<lambda>cs u. if cs = [] then None
                  else Some \<lparr>reg_status = 200,
                             reg_items = Some [Some \<lparr>cik_str = ''1'', item_ticker = ''ABCD'',
                                                      item_title = ''Acme Corp''\<rparr>]\<rparr>),
      sec_submissions = (\<lambda>cs c.
         Some \<lparr>sub_filings = Some (Some
           \<lparr>form = Some [''10-K'', ''25''],
            filingDate = Some [''2020-03-01'', ''2020-06-15''],
            accessionNumber = Some [''0000000001-20-000001'', ''0000000001-20-000002''],
            primaryDocument = Some [''a.htm'', ''b.htm'']\<rparr>)\<rparr>)\<rparr>"

definition acme_filing :: filing_info where
  "acme_filing =
     \<lparr>ticker = ''ABCD'', company_name = ''Acme Corp'', cik = ''0000000001'',
      exchange = ''NASDAQ'', form_type = ''25'', filing_date = ''2020-06-15'',
      accession_number = ''0000000001-20-000002'', primary_document = ''b.htm'',
      market_cap = Some 50000000, market_cap_source = ''calculated''\<rparr>"

text \<open>The two market-cap fields of an event agree in the way claim C2 asks.\<close>

definition source_agrees :: "filing_info \<Rightarrow> bool" where
  "source_agrees f =
     ((market_cap f \<noteq> None) = (market_cap_source f \<noteq> ''none'') \<and>
      (market_cap_source f = ''yahoo_historical'' \<or> market_cap_source f = ''fmp_api'' \<or>
       market_cap_source f = ''calculated'' \<or> market_cap_source f = ''yahoo_current'' \<or>
       market_cap_source f = ''none''))"

definition acme_recent :: recent_filings where
  "acme_recent =
     \<lparr>form = Some [''10-K'', ''25''],
      filingDate = Some [''2020-03-01'', ''2020-06-15''],
      accessionNumber = Some [''0000000001-20-000001'', ''0000000001-20-000002''],
      primaryDocument = Some [''a.htm'', ''b.htm'']\<rparr>"

definition acme_company :: company_info where
  "acme_company = \<lparr>info_ticker = ''ABCD'', info_title = ''Acme Corp'', info_cik = ''0000000001''\<rparr>"

text \<open>The same company when Yahoo Finance reports the over-the-counter code \<^verbatim>\<open>PNK\<close>.\<close>

definition otc_world :: world where
  "otc_world = acme_world\<lparr>yf_info := (\<lambda>cs t. Some [''sharesOutstanding'' \<mapsto> PyNum 5000000,
                                                   ''exchange'' \<mapsto> PyStr ''PNK''])\<rparr>"

definition no_filings :: collection where
  "no_filings = \<lparr>all_filings = [], filings_with_market_cap = [],
                 skipped_exchange = 0, skipped_no_exchange = 0\<rparr>"

definition listed :: "state \<Rightarrow> filing_info \<Rightarrow> bool" where
  "listed s f = (exchange f \<in> set (target_exchanges s) \<and> exchange f \<noteq> [])"

text \<open>Every cached exchange is an output of the code-to-exchange table.\<close>

definition cache_ok :: "state \<Rightarrow> bool" where
  "cache_ok s =
     (\<forall>t e. ticker_to_exchange s t = Some e \<longrightarrow>
        e = ''NYSE'' \<or> e = ''NASDAQ'' \<or> e = ''AMEX'' \<or> e = ''NYSE ARCA'')"

text \<open>
  Since the state \<open>s0\<close> the FMP API is marked as not working, the strategy method was not
  entered and no request went to the API.
\<close>

definition fmp_quiet :: "state \<Rightarrow> state \<Rightarrow> bool" where
  "fmp_quiet s0 st =
     (\<not> fmp_api_working st \<and>
      (\<exists>cs. calls st = calls s0 @ cs \<and> fmp_requests cs = [] \<and>
            ''_get_from_fmp'' \<notin> set (invoked cs)))"

text \<open>
  A world for the FMP scenarios: the validation request of the constructor is answered
  with status 200 and a market cap, every later request with the status \<open>code\<close>; price
  histories are empty and \<^verbatim>\<open>stock.info\<close> has no fields, so the Yahoo strategies fail.
\<close>

definition fmp_status_world :: "nat \<Rightarrow> world" where
  "fmp_status_world code =
     \<lparr>strptime = (\<lambda>d. Some 0),
      yf_history = (\<lambda>cs t a b. Some []),
      yf_info = (\<lambda>cs t. Some Map.empty),
      fmp_get = (\<lambda>cs t. if cs = []
                  then Some \<lparr>status_code = 200,
                             json = Some (JList [[''marketCap'' \<mapsto> PyNum 1]])\<rparr>
                  else Some \<lparr>status_code = code, json = None\<rparr>),
      sec_get = (\<lambda>cs u. None),
      sec_submissions = (\<lambda>cs c. None)\<rparr>"

text \<open>
  A registry endpoint fails: the request raises, the status is not 200, the body does not
  parse, or an item of the body lacks a key.
\<close>

definition endpoint_failed :: "registry_response option \<Rightarrow> bool" where
  "endpoint_failed response =
     (case response of
        None \<Rightarrow> True
      | Some r \<Rightarrow>
          reg_status r \<noteq> 200 \<or>
          (case reg_items r of None \<Rightarrow> True | Some items \<Rightarrow> load_items items [] = None))"

text \<open>The three endpoints fail when they are asked one after the other from state \<open>s\<close>.\<close>

definition all_endpoints_fail :: "world \<Rightarrow> state \<Rightarrow> bool" where
  "all_endpoints_fail w s =
     (endpoint_failed (sec_get w (calls s) ''https://www.sec.gov/files/company_tickers.json'') \<and>
      endpoint_failed
        (sec_get w (calls s @ [SecGet ''https://www.sec.gov/files/company_tickers.json''])
           ''https://data.sec.gov/files/company_tickers.json'') \<and>
      endpoint_failed
        (sec_get w (calls s @ [SecGet ''https://www.sec.gov/files/company_tickers.json'',
                               SecGet ''https://data.sec.gov/files/company_tickers.json''])
           ''https://www.sec.gov/files/company_tickers_exchange.json''))"

text \<open>A sort by filing date, latest first, for examples.\<close>

definition sort_values_descending :: "filing_info list \<Rightarrow> filing_info list" where
  "sort_values_descending df = rev (sort_key filing_date df)"

section \<open>The fetcher: frame and case lemmas\<close>

lemma invoked_append: "invoked (xs @ ys) = invoked xs @ invoked ys"
  by (induction xs rule: invoked.induct) auto

lemma fmp_requests_append: "fmp_requests (xs @ ys) = fmp_requests xs @ fmp_requests ys"
  by (induction xs rule: fmp_requests.induct) auto

lemma yh_frame:
  assumes "get_yahoo_historical w s t d = (r, s')"
  shows "same_fields s s' \<and> fmp_api_working s' = fmp_api_working s \<and>
         (\<exists>cs. calls s' = calls s @ cs \<and> invoked cs = [''_get_yahoo_historical''] \<and>
               fmp_requests cs = [])"
  using assms
  by (auto simp: get_yahoo_historical_def logc_def Let_def same_fields_def split: option.splits if_splits)

lemma calc_frame:
  assumes "calculate_from_yahoo_data w s t d = (r, s')"
  shows "same_fields s s' \<and> fmp_api_working s' = fmp_api_working s \<and>
         (\<exists>cs. calls s' = calls s @ cs \<and> invoked cs = [''_calculate_from_yahoo_data''] \<and>
               fmp_requests cs = [])"
  using assms
  by (auto simp: calculate_from_yahoo_data_def logc_def Let_def same_fields_def split: option.splits if_splits)

lemma yc_frame:
  assumes "get_yahoo_current w s t = (r, s')"
  shows "same_fields s s' \<and> fmp_api_working s' = fmp_api_working s \<and>
         (\<exists>cs. calls s' = calls s @ cs \<and> invoked cs = [''_get_yahoo_current''] \<and>
               fmp_requests cs = [])"
  using assms
  by (auto simp: get_yahoo_current_def logc_def Let_def same_fields_def split: option.splits if_splits)

lemma fmp_frame:
  assumes "get_from_fmp w s t d = (r, s')"
  shows "same_fields s s' \<and> (fmp_api_working s' \<longrightarrow> fmp_api_working s) \<and>
         (\<exists>cs. calls s' = calls s @ cs \<and> invoked cs = [''_get_from_fmp''])"
  using assms
  by (auto simp: get_from_fmp_def logc_def Let_def same_fields_def key_given_def
      split: option.splits if_splits json_body.splits list.splits)

lemma bump_simps:
  "calls (bump_total s) = calls s" "fmp_api_working (bump_total s) = fmp_api_working s"
  "fmp_api_key (bump_total s) = fmp_api_key s" "key_given (bump_total s) = key_given s"
  "target_exchanges (bump_total s) = target_exchanges s"
  "ticker_to_exchange (bump_total s) = ticker_to_exchange s"
  "calls (record_outcome n s) = calls s"
  "fmp_api_working (record_outcome n s) = fmp_api_working s"
  "fmp_api_key (record_outcome n s) = fmp_api_key s"
  "target_exchanges (record_outcome n s) = target_exchanges s"
  "ticker_to_exchange (record_outcome n s) = ticker_to_exchange s"
  by (simp_all add: bump_total_def record_outcome_def bump_yahoo_historical_def bump_fmp_api_def
      bump_calculated_def bump_yahoo_current_def bump_failed_def key_given_def)

lemma record_outcome_simps:
  "record_outcome ''yahoo_historical'' s = bump_yahoo_historical s"
  "record_outcome ''fmp_api'' s = bump_fmp_api s"
  "record_outcome ''calculated'' s = bump_calculated s"
  "record_outcome ''yahoo_current'' s = bump_yahoo_current s"
  "record_outcome ''none'' s = bump_failed s"
  by (simp_all add: record_outcome_def)

lemma get_market_cap_refines: "get_market_cap w s t d = resolve_spec w s t d"
  by (simp add: get_market_cap_def resolve_spec_def record_outcome_simps Let_def
      split: prod.splits option.splits)

lemma get_market_cap_cases:
  obtains
    (yh) v s1 where "get_yahoo_historical w (bump_total s) t d = (Some v, s1)"
      "get_market_cap w s t d = ((Some v, ''yahoo_historical''), bump_yahoo_historical s1)"
  | (fmp) s1 v s2 where "get_yahoo_historical w (bump_total s) t d = (None, s1)"
      "key_given s1 \<and> fmp_api_working s1" "get_from_fmp w s1 t d = (Some v, s2)"
      "get_market_cap w s t d = ((Some v, ''fmp_api''), bump_fmp_api s2)"
  | (rest) s1 s2 r3 s3 where "get_yahoo_historical w (bump_total s) t d = (None, s1)"
      "(key_given s1 \<and> fmp_api_working s1 \<and> get_from_fmp w s1 t d = (None, s2)) \<or>
       (\<not> (key_given s1 \<and> fmp_api_working s1) \<and> s2 = s1)"
      "calculate_from_yahoo_data w s2 t d = (r3, s3)"
      "case r3 of Some v \<Rightarrow> get_market_cap w s t d = ((Some v, ''calculated''), bump_calculated s3)
       | None \<Rightarrow> (case get_yahoo_current w s3 t of
            (Some v, s4) \<Rightarrow> get_market_cap w s t d = ((Some v, ''yahoo_current''), bump_yahoo_current s4)
          | (None, s4) \<Rightarrow> get_market_cap w s t d = ((None, ''none''), bump_failed s4))"
proof -
  obtain r1 s1 where h1: "get_yahoo_historical w (bump_total s) t d = (r1, s1)"
    by (cases "get_yahoo_historical w (bump_total s) t d")
  show thesis
  proof (cases r1)
    case (Some v)
    with h1 show thesis
      by (intro yh[of v s1]) (simp_all add: get_market_cap_def Let_def)
  next
    case None
    note n1 = this
    obtain r2 s2 where h2: "(if key_given s1 \<and> fmp_api_working s1
                 then get_from_fmp w s1 t d else (None, s1)) = (r2, s2)"
      by (cases "(if key_given s1 \<and> fmp_api_working s1
                 then get_from_fmp w s1 t d else (None, s1))")
    show thesis
    proof (cases r2)
      case (Some v)
      with h1 n1 h2 show thesis
        by (intro fmp[of s1 v s2]) (auto simp: get_market_cap_def Let_def split: if_splits)
    next
      case None
      obtain r3 s3 where h3: "calculate_from_yahoo_data w s2 t d = (r3, s3)"
        by (cases "calculate_from_yahoo_data w s2 t d")
      from h1 n1 h2 None h3 show thesis
        by (intro rest[of s1 s2 r3 s3])
           (auto simp: get_market_cap_def Let_def split: if_splits option.splits prod.splits)
    qed
  qed
qed

lemma bump_fields:
  "calls (bump_yahoo_historical s) = calls s" "calls (bump_fmp_api s) = calls s"
  "calls (bump_calculated s) = calls s" "calls (bump_yahoo_current s) = calls s"
  "calls (bump_failed s) = calls s"
  "fmp_api_working (bump_yahoo_historical s) = fmp_api_working s"
  "fmp_api_working (bump_fmp_api s) = fmp_api_working s"
  "fmp_api_working (bump_calculated s) = fmp_api_working s"
  "fmp_api_working (bump_yahoo_current s) = fmp_api_working s"
  "fmp_api_working (bump_failed s) = fmp_api_working s"
  "fmp_api_key (bump_yahoo_historical s) = fmp_api_key s"
  "fmp_api_key (bump_fmp_api s) = fmp_api_key s"
  "fmp_api_key (bump_calculated s) = fmp_api_key s"
  "fmp_api_key (bump_yahoo_current s) = fmp_api_key s"
  "fmp_api_key (bump_failed s) = fmp_api_key s"
  "target_exchanges (bump_yahoo_historical s) = target_exchanges s"
  "target_exchanges (bump_fmp_api s) = target_exchanges s"
  "target_exchanges (bump_calculated s) = target_exchanges s"
  "target_exchanges (bump_yahoo_current s) = target_exchanges s"
  "target_exchanges (bump_failed s) = target_exchanges s"
  "ticker_to_exchange (bump_yahoo_historical s) = ticker_to_exchange s"
  "ticker_to_exchange (bump_fmp_api s) = ticker_to_exchange s"
  "ticker_to_exchange (bump_calculated s) = ticker_to_exchange s"
  "ticker_to_exchange (bump_yahoo_current s) = ticker_to_exchange s"
  "ticker_to_exchange (bump_failed s) = ticker_to_exchange s"
  by (simp_all add: bump_yahoo_historical_def bump_fmp_api_def
      bump_calculated_def bump_yahoo_current_def bump_failed_def)

lemma key_given_same: "same_fields s s' \<Longrightarrow> key_given s' = key_given s"
  by (simp add: same_fields_def key_given_def)

lemma get_market_cap_invoked:
  assumes "get_market_cap w s t d = ((r, src), s')"
  shows "\<exists>cs. calls s' = calls s @ cs \<and>
    ((src = ''yahoo_historical'' \<and> invoked cs = [''_get_yahoo_historical'']) \<or>
     (src = ''fmp_api'' \<and> invoked cs = [''_get_yahoo_historical'', ''_get_from_fmp'']) \<or>
     (src = ''calculated'' \<and>
        invoked cs = [''_get_yahoo_historical''] @ fmp_part s @ [''_calculate_from_yahoo_data'']) \<or>
     ((src = ''yahoo_current'' \<or> src = ''none'') \<and>
        invoked cs = [''_get_yahoo_historical''] @ fmp_part s @
                     [''_calculate_from_yahoo_data'', ''_get_yahoo_current'']))"
proof (cases rule: get_market_cap_cases[of w s t d])
  case (yh v s1)
  from yh_frame[OF yh(1)] yh(2) assms show ?thesis
    by (auto simp: bump_simps bump_fields)
next
  case (fmp s1 v s2)
  from yh_frame[OF fmp(1)] fmp_frame[OF fmp(3)] fmp(4) assms show ?thesis
    by (auto simp: bump_simps bump_fields invoked_append)
next
  case (rest s1 s2 r3 s3)
  from yh_frame[OF rest(1)]
  obtain c1 where c1: "calls s1 = calls s @ c1" "invoked c1 = [''_get_yahoo_historical'']"
    and k1: "key_given s1 = key_given s" "fmp_api_working s1 = fmp_api_working s"
    by (auto simp: bump_simps dest: key_given_same)
  from rest(2) k1 obtain c2 where c2: "calls s2 = calls s1 @ c2" "invoked c2 = fmp_part s"
    by (auto simp: fmp_part_def dest: fmp_frame)
  from calc_frame[OF rest(3)]
  obtain c3 where c3: "calls s3 = calls s2 @ c3" "invoked c3 = [''_calculate_from_yahoo_data'']"
    by auto
  show ?thesis
  proof (cases r3)
    case (Some v)
    with rest(4) assms c1 c2 c3 show ?thesis
      by (auto simp: bump_fields invoked_append)
  next
    case None
    obtain r4 s4 where h4: "get_yahoo_current w s3 t = (r4, s4)"
      by (cases "get_yahoo_current w s3 t")
    from yc_frame[OF h4]
    obtain c4 where c4: "calls s4 = calls s3 @ c4" "invoked c4 = [''_get_yahoo_current'']"
      by auto
    from None rest(4) h4 assms c1 c2 c3 c4 show ?thesis
      by (cases r4) (auto simp: bump_fields invoked_append)
  qed
qed

lemma same_fields_trans: "same_fields a b \<Longrightarrow> same_fields b c \<Longrightarrow> same_fields a c"
  by (simp add: same_fields_def)

lemma same_fields_refl: "same_fields a a"
  by (simp add: same_fields_def)

text \<open>Before the counter of the outcome is bumped, a call has changed the total, the log and
  perhaps the working flag.\<close>

lemma get_market_cap_pre:
  assumes g: "get_market_cap w s t d = ((r, src), s')"
  shows "\<exists>s4. same_fields (bump_total s) s4 \<and> (fmp_api_working s4 \<longrightarrow> fmp_api_working s) \<and>
     (\<not> (key_given s \<and> fmp_api_working s) \<longrightarrow>
         fmp_requests (new_calls s s4) = [] \<and> ''_get_from_fmp'' \<notin> set (invoked (new_calls s s4))) \<and>
     length (calls s) \<le> length (calls s4) \<and>
     s' = record_outcome src s4 \<and> (r \<noteq> None) = (src \<noteq> ''none'') \<and>
     src \<in> set [''yahoo_historical'', ''fmp_api'', ''calculated'', ''yahoo_current'', ''none'']"
proof (cases rule: get_market_cap_cases[of w s t d])
  case (yh v s1)
  from yh_frame[OF yh(1)] yh(2) g show ?thesis
    by (intro exI[of _ s1]) (auto simp: bump_simps record_outcome_simps new_calls_def)
next
  case (fmp s1 v s2)
  from yh_frame[OF fmp(1)] fmp_frame[OF fmp(3)] fmp(2) fmp(4) g show ?thesis
    by (intro exI[of _ s2])
       (auto simp: bump_simps record_outcome_simps new_calls_def
             dest: same_fields_trans key_given_same)
next
  case (rest s1 s2 r3 s3)
  from yh_frame[OF rest(1)]
  obtain c1 where c1: "calls s1 = calls s @ c1" "invoked c1 = [''_get_yahoo_historical'']"
      "fmp_requests c1 = []"
    and k1: "key_given s1 = key_given s" "fmp_api_working s1 = fmp_api_working s"
      "same_fields (bump_total s) s1"
    by (auto simp: bump_simps dest: key_given_same)
  from rest(2) k1 obtain c2 where c2: "calls s2 = calls s1 @ c2"
      "\<not> (key_given s \<and> fmp_api_working s) \<longrightarrow> c2 = []"
    and k2: "same_fields s1 s2" "fmp_api_working s2 \<longrightarrow> fmp_api_working s1"
    by (auto dest: fmp_frame simp: same_fields_refl)
  from calc_frame[OF rest(3)]
  obtain c3 where c3: "calls s3 = calls s2 @ c3" "invoked c3 = [''_calculate_from_yahoo_data'']"
      "fmp_requests c3 = []"
    and k3: "same_fields s2 s3" "fmp_api_working s3 = fmp_api_working s2"
    by auto
  show ?thesis
  proof (cases r3)
    case (Some v)
    with rest(4) c1 c2 c3 k1 k2 k3 g show ?thesis
      by (intro exI[of _ s3])
         (auto simp: record_outcome_simps new_calls_def invoked_append fmp_requests_append
               dest: same_fields_trans)
  next
    case None
    obtain r4 s4 where h4: "get_yahoo_current w s3 t = (r4, s4)"
      by (cases "get_yahoo_current w s3 t")
    from yc_frame[OF h4]
    obtain c4 where c4: "calls s4 = calls s3 @ c4" "invoked c4 = [''_get_yahoo_current'']"
      "fmp_requests c4 = []"
    and k4: "same_fields s3 s4" "fmp_api_working s4 = fmp_api_working s3"
      by auto
    from k1 k2 k3 k4 have sf: "same_fields (bump_total s) s4"
      by (blast intro: same_fields_trans)
    from None rest(4) h4 c1 c2 c3 c4 k1 k2 k3 k4 sf g show ?thesis
      by (intro exI[of _ s4], cases r4)
         (auto simp: record_outcome_simps new_calls_def invoked_append fmp_requests_append)
  qed
qed

section \<open>The collector: one step\<close>

lemma check_filing_elim:
  assumes "check_filing w m sd ed c company recent i (acc, s) = Inr (acc', s')"
  obtains
    (unchanged) "all_filings acc' = all_filings acc"
      "filings_with_market_cap acc' = filings_with_market_cap acc" "s' = s"
  | (skipped) ex where "get_ticker_exchange w s (info_ticker company) = (ex, s')"
      "case ex of None \<Rightarrow> True | Some x \<Rightarrow> x = [] \<or> x \<notin> set (target_exchanges s')"
      "all_filings acc' = all_filings acc"
      "filings_with_market_cap acc' = filings_with_market_cap acc"
  | (added) ex s1 cap src ftype fdate accession document f where
      "get_ticker_exchange w s (info_ticker company) = (Some ex, s1)"
      "ex \<noteq> []" "ex \<in> set (target_exchanges s1)"
      "get_market_cap w s1 (info_ticker company) fdate = ((cap, src), s')"
      "f = \<lparr>ticker = info_ticker company, company_name = info_title company,
                   cik = c, exchange = ex, form_type = ftype, filing_date = fdate,
                   accession_number = accession, primary_document = document,
                   market_cap = cap, market_cap_source = src\<rparr>"
      "all_filings acc' = all_filings acc @ [f]"
      "filings_with_market_cap acc' = filings_with_market_cap acc @ filter (small_cap m) [f]"
proof (cases "index (form recent) i")
  case (Inl e)
  with assms show ?thesis by (auto simp: check_filing_def split: if_split_asm)
next
  case (Inr ftype)
  note a = this
  show ?thesis
  proof (cases "index (filingDate recent) i")
    case (Inl e)
    with assms a show ?thesis by (auto simp: check_filing_def split: if_split_asm)
  next
    case (Inr fdate)
    note b = this
    show ?thesis
    proof (cases "ftype \<in> set [''25'', ''25-NSE'']")
      case False
      with assms a b have "acc' = acc \<and> s' = s" by (auto simp: check_filing_def split: if_split_asm)
      then show ?thesis by (intro unchanged) simp_all
    next
      case True
      note c = this
      show ?thesis
      proof (cases "strptime w fdate")
        case None
        with assms a b c show ?thesis by (auto simp: check_filing_def split: if_split_asm)
      next
        case (Some filing_dt)
        note d = this
        show ?thesis
        proof (cases "sd \<le> filing_dt \<and> filing_dt \<le> ed")
          case False
          with assms a b c d have "acc' = acc \<and> s' = s" by (auto simp: check_filing_def split: if_split_asm)
          then show ?thesis by (intro unchanged) simp_all
        next
          case True
          note e = this
          obtain exo s1 where g: "get_ticker_exchange w s (info_ticker company) = (exo, s1)"
            by (cases "get_ticker_exchange w s (info_ticker company)")
          show ?thesis
          proof (cases "case exo of None \<Rightarrow> True | Some x \<Rightarrow> x = [] \<or> x \<notin> set (target_exchanges s1)")
            case True
            with assms a b c d e g
            have "s' = s1 \<and> all_filings acc' = all_filings acc \<and>
                  filings_with_market_cap acc' = filings_with_market_cap acc"
              by (auto simp: check_filing_def split: option.split_asm if_split_asm)
            with g True show ?thesis by (intro skipped[of exo]) auto
          next
            case False
            then obtain ex where x: "exo = Some ex" "ex \<noteq> []" "ex \<in> set (target_exchanges s1)"
              by (cases exo) auto
            show ?thesis
            proof (cases "index (accessionNumber recent) i")
              case (Inl e')
              with assms a b c d e g x show ?thesis by (auto simp: check_filing_def split: if_split_asm)
            next
              case (Inr accession)
              note h = this
              show ?thesis
              proof (cases "index (primaryDocument recent) i")
                case (Inl e')
                with assms a b c d e g x h show ?thesis by (auto simp: check_filing_def split: if_split_asm)
              next
                case (Inr document)
                note k = this
                obtain cap src s2 where
                  mc: "get_market_cap w s1 (info_ticker company) fdate = ((cap, src), s2)"
                  by (cases "get_market_cap w s1 (info_ticker company) fdate") auto
                define f where "f = \<lparr>ticker = info_ticker company,
                   company_name = info_title company,
                   cik = c, exchange = ex, form_type = ftype, filing_date = fdate,
                   accession_number = accession, primary_document = document,
                   market_cap = cap, market_cap_source = src\<rparr>"
                from assms a b c d e g x h k mc
                have "s' = s2 \<and> all_filings acc' = all_filings acc @ [f] \<and>
                  filings_with_market_cap acc' =
                    filings_with_market_cap acc @ filter (small_cap m) [f]"
                  by (auto simp: check_filing_def Let_def f_def small_cap_def
                      split: option.split_asm if_split_asm)
                with g x mc f_def show ?thesis
                  by (intro added[of ex s1 fdate cap src f ftype accession document]) simp_all
              qed
            qed
          qed
        qed
      qed
    qed
  qed
qed

section \<open>Sanity bounds of the computed market cap\<close>

lemma price_times_shares_Some:
  "price_times_shares p sh = Some v \<Longrightarrow> 1000 < v \<and> v < 1000000000000"
  by (auto simp: price_times_shares_def sanity_check_def Let_def split: option.splits if_splits)

lemma yh_value:
  "get_yahoo_historical w s t d = (Some v, s') \<Longrightarrow> 1000 < v \<and> v < 1000000000000"
  by (auto simp: get_yahoo_historical_def Let_def split: option.splits if_splits
      dest: price_times_shares_Some)

lemma calc_value:
  "calculate_from_yahoo_data w s t d = (Some v, s') \<Longrightarrow> 1000 < v \<and> v < 1000000000000"
  by (auto simp: calculate_from_yahoo_data_def Let_def split: option.splits if_splits
      dest: price_times_shares_Some)

lemma yh_quote_world:
  "fst (get_yahoo_historical (quote_world p sh) s t d) =
     (if 0 < sh \<and> 0 < p \<and> 1000 < p * sh \<and> p * sh < 1000000000000 then Some (p * sh) else None)"
  by (auto simp: get_yahoo_historical_def quote_world_def Let_def price_times_shares_def
      sanity_check_def get_key_def get_default_def)

lemma calc_quote_world:
  "fst (calculate_from_yahoo_data (quote_world p sh) s t d) =
     (if 0 < sh \<and> 0 < p \<and> 1000 < p * sh \<and> p * sh < 1000000000000 then Some (p * sh) else None)"
  by (auto simp: calculate_from_yahoo_data_def quote_world_def Let_def price_times_shares_def
      sanity_check_def get_key_def get_default_def)

text \<open>
  Claim C4, as the code has it. Both bounds of the sanity check are strict: whatever
  \<^verbatim>\<open>_get_yahoo_historical\<close> or \<^verbatim>\<open>_calculate_from_yahoo_data\<close> returns lies strictly between
  1,000 and \<open>10\<^sup>1\<^sup>2\<close>. At a close of 1 the computed market cap is the number of shares: 999
  is rejected, 1,000 is rejected too, 1,001 and 999,999,999,999 are accepted, \<open>10\<^sup>1\<^sup>2\<close> is
  rejected.
\<close>

theorem sanity_bounds_are_strict:
  "(get_yahoo_historical w s t d = (Some v1, s1) \<longrightarrow> 1000 < v1 \<and> v1 < 1000000000000) \<and>
   (calculate_from_yahoo_data w s t d = (Some v2, s2) \<longrightarrow> 1000 < v2 \<and> v2 < 1000000000000) \<and>
   fst (get_yahoo_historical (quote_world 1 999) s t d) = None \<and>
   fst (get_yahoo_historical (quote_world 1 1000) s t d) = None \<and>
   fst (get_yahoo_historical (quote_world 1 1001) s t d) = Some 1001 \<and>
   fst (get_yahoo_historical (quote_world 1 999999999999) s t d) = Some 999999999999 \<and>
   fst (get_yahoo_historical (quote_world 1 1000000000000) s t d) = None \<and>
   fst (calculate_from_yahoo_data (quote_world 1 999) s t d) = None \<and>
   fst (calculate_from_yahoo_data (quote_world 1 1000) s t d) = None \<and>
   fst (calculate_from_yahoo_data (quote_world 1 1001) s t d) = Some 1001 \<and>
   fst (calculate_from_yahoo_data (quote_world 1 999999999999) s t d) = Some 999999999999 \<and>
   fst (calculate_from_yahoo_data (quote_world 1 1000000000000) s t d) = None"
  using yh_value[of w s t d v1 s1] calc_value[of w s t d v2 s2]
  by (simp add: yh_quote_world calc_quote_world)

text \<open>
  The scenario of the specification: a close of 10 and 5,000,000 shares give 50,000,000 from
  either strategy, inside the bounds.
\<close>

theorem sanity_bounds_are_strict_witness:
  "get_yahoo_historical (quote_world 10 5000000) (init_scraper (quote_world 10 5000000) None None)
      ''ABCD'' ''2020-06-15'' =
     (Some 50000000,
      snd (get_yahoo_historical (quote_world 10 5000000)
             (init_scraper (quote_world 10 5000000) None None) ''ABCD'' ''2020-06-15'')) \<and>
   calculate_from_yahoo_data (quote_world 10 5000000)
      (init_scraper (quote_world 10 5000000) None None) ''ABCD'' ''2020-06-15'' =
     (Some 50000000,
      snd (calculate_from_yahoo_data (quote_world 10 5000000)
             (init_scraper (quote_world 10 5000000) None None) ''ABCD'' ''2020-06-15'')) \<and>
   (1000::real) < 50000000 \<and> (50000000::real) < 1000000000000"
proof -
  let ?w = "quote_world 10 5000000"
  let ?s = "init_scraper ?w None None"
  have a: "fst (get_yahoo_historical ?w ?s ''ABCD'' ''2020-06-15'') = Some 50000000"
    by (simp add: yh_quote_world)
  have b: "fst (calculate_from_yahoo_data ?w ?s ''ABCD'' ''2020-06-15'') = Some 50000000"
    by (simp add: calc_quote_world)
  from a have a': "get_yahoo_historical ?w ?s ''ABCD'' ''2020-06-15'' =
     (Some 50000000, snd (get_yahoo_historical ?w ?s ''ABCD'' ''2020-06-15''))"
    by (metis prod.collapse)
  from b have b': "calculate_from_yahoo_data ?w ?s ''ABCD'' ''2020-06-15'' =
     (Some 50000000, snd (calculate_from_yahoo_data ?w ?s ''ABCD'' ''2020-06-15''))"
    by (metis prod.collapse)
  from sanity_bounds_are_strict[of ?w ?s "''ABCD''" "''2020-06-15''" 50000000
      "snd (get_yahoo_historical ?w ?s ''ABCD'' ''2020-06-15'')" 50000000
      "snd (calculate_from_yahoo_data ?w ?s ''ABCD'' ''2020-06-15'')"] a' b'
  show ?thesis by simp
qed

text \<open>
  Against claim C4 as the specification states it (exactly 1,000 is accepted): with a close
  of 1 and 1,000 shares the computed market cap is exactly 1,000, the check
  \<^verbatim>\<open>1_000 < market_cap\<close> fails, and both strategies return \<^verbatim>\<open>None\<close>.
\<close>

theorem sanity_bound_1000_counterexample:
  "\<not> sanity_check 1000 \<and>
   fst (get_yahoo_historical (quote_world 1 1000) (init_scraper (quote_world 1 1000) None None)
          ''ABCD'' ''2020-06-15'') = None \<and>
   fst (calculate_from_yahoo_data (quote_world 1 1000) (init_scraper (quote_world 1 1000) None None)
          ''ABCD'' ''2020-06-15'') = None"
  by (simp add: sanity_check_def get_yahoo_historical_def calculate_from_yahoo_data_def
      quote_world_def Let_def price_times_shares_def get_key_def get_default_def logc_def)

section \<open>Run statistics\<close>

lemma stats_record_outcome:
  "stats a = stats b \<Longrightarrow> stats (record_outcome n a) = stats (record_outcome n b)"
  by (simp add: record_outcome_def bump_yahoo_historical_def bump_fmp_api_def
      bump_calculated_def bump_yahoo_current_def bump_failed_def)

lemma record_outcome_new_calls: "new_calls s (record_outcome n s4) = new_calls s s4"
  by (simp add: new_calls_def bump_simps)

lemma get_market_cap_post:
  assumes g: "get_market_cap w s t d = ((r, src), s')"
  shows "fmp_api_key s' = fmp_api_key s"
    and "target_exchanges s' = target_exchanges s"
    and "ticker_to_exchange s' = ticker_to_exchange s"
    and "fmp_api_working s' \<Longrightarrow> fmp_api_working s"
    and "\<not> (key_given s \<and> fmp_api_working s) \<Longrightarrow> fmp_requests (new_calls s s') = []"
    and "\<not> (key_given s \<and> fmp_api_working s) \<Longrightarrow>
           ''_get_from_fmp'' \<notin> set (invoked (new_calls s s'))"
    and "length (calls s) \<le> length (calls s')"
    and "(r \<noteq> None) = (src \<noteq> ''none'')"
    and "src = ''yahoo_historical'' \<or> src = ''fmp_api'' \<or> src = ''calculated'' \<or>
         src = ''yahoo_current'' \<or> src = ''none''"
    and "stats s' = stats (record_outcome src (bump_total s))"
proof -
  from get_market_cap_pre[OF g] obtain s4 where
    p: "same_fields (bump_total s) s4 \<and> (fmp_api_working s4 \<longrightarrow> fmp_api_working s) \<and>
     (\<not> (key_given s \<and> fmp_api_working s) \<longrightarrow>
         fmp_requests (new_calls s s4) = [] \<and> ''_get_from_fmp'' \<notin> set (invoked (new_calls s s4))) \<and>
     length (calls s) \<le> length (calls s4) \<and>
     s' = record_outcome src s4 \<and> (r \<noteq> None) = (src \<noteq> ''none'') \<and>
     src \<in> set [''yahoo_historical'', ''fmp_api'', ''calculated'', ''yahoo_current'', ''none'']" ..
  then have sf: "same_fields (bump_total s) s4" and s': "s' = record_outcome src s4"
    by (rule conjunct1, simp)
  from sf show "fmp_api_key s' = fmp_api_key s" "target_exchanges s' = target_exchanges s"
    "ticker_to_exchange s' = ticker_to_exchange s"
    by (simp_all add: s' same_fields_def bump_simps)
  from p show "fmp_api_working s' \<Longrightarrow> fmp_api_working s"
    by (simp add: s' bump_simps)
  from p show "\<not> (key_given s \<and> fmp_api_working s) \<Longrightarrow> fmp_requests (new_calls s s') = []"
    by (simp add: s' record_outcome_new_calls)
  from p show "\<not> (key_given s \<and> fmp_api_working s) \<Longrightarrow>
           ''_get_from_fmp'' \<notin> set (invoked (new_calls s s'))"
    by (simp add: s' record_outcome_new_calls)
  from p show "length (calls s) \<le> length (calls s')"
    by (simp add: s' bump_simps)
  from p show "(r \<noteq> None) = (src \<noteq> ''none'')"
    by (elim conjE)
  from p show "src = ''yahoo_historical'' \<or> src = ''fmp_api'' \<or> src = ''calculated'' \<or>
         src = ''yahoo_current'' \<or> src = ''none''"
    by simp
  from sf have "stats s4 = stats (bump_total s)"
    by (simp add: same_fields_def)
  then show "stats s' = stats (record_outcome src (bump_total s))"
    unfolding s' by (rule stats_record_outcome)
qed

lemma stats_after_outcome:
  "stats (record_outcome ''yahoo_historical'' (bump_total s)) =
     (stats s)\<lparr>total_count := total_count (stats s) + 1,
              yahoo_historical := yahoo_historical (stats s) + 1\<rparr>"
  "stats (record_outcome ''fmp_api'' (bump_total s)) =
     (stats s)\<lparr>total_count := total_count (stats s) + 1, fmp_api := fmp_api (stats s) + 1\<rparr>"
  "stats (record_outcome ''calculated'' (bump_total s)) =
     (stats s)\<lparr>total_count := total_count (stats s) + 1,
              calculated := calculated (stats s) + 1\<rparr>"
  "stats (record_outcome ''yahoo_current'' (bump_total s)) =
     (stats s)\<lparr>total_count := total_count (stats s) + 1,
              yahoo_current := yahoo_current (stats s) + 1\<rparr>"
  "stats (record_outcome ''none'' (bump_total s)) =
     (stats s)\<lparr>total_count := total_count (stats s) + 1, failed := failed (stats s) + 1\<rparr>"
  by (simp_all add: record_outcome_simps bump_total_def bump_yahoo_historical_def
      bump_fmp_api_def bump_calculated_def bump_yahoo_current_def bump_failed_def)

lemma get_market_cap_stats_cases:
  assumes g: "get_market_cap w s t d = ((r, src), s')"
  shows "total_count (stats s') = total_count (stats s) + 1 \<and>
        ((src = ''yahoo_historical'' \<and>
          stats s' = (stats s)\<lparr>total_count := total_count (stats s) + 1,
                               yahoo_historical := yahoo_historical (stats s) + 1\<rparr>) \<or>
         (src = ''fmp_api'' \<and>
          stats s' = (stats s)\<lparr>total_count := total_count (stats s) + 1,
                               fmp_api := fmp_api (stats s) + 1\<rparr>) \<or>
         (src = ''calculated'' \<and>
          stats s' = (stats s)\<lparr>total_count := total_count (stats s) + 1,
                               calculated := calculated (stats s) + 1\<rparr>) \<or>
         (src = ''yahoo_current'' \<and>
          stats s' = (stats s)\<lparr>total_count := total_count (stats s) + 1,
                               yahoo_current := yahoo_current (stats s) + 1\<rparr>) \<or>
         (src = ''none'' \<and>
          stats s' = (stats s)\<lparr>total_count := total_count (stats s) + 1,
                               failed := failed (stats s) + 1\<rparr>))"
proof -
  note st = get_market_cap_post(10)[OF g]
  from get_market_cap_post(9)[OF g]
  consider "src = ''yahoo_historical''" | "src = ''fmp_api''" | "src = ''calculated''"
    | "src = ''yahoo_current''" | "src = ''none''"
    by (elim disjE) 
  then show ?thesis
  proof cases
    case 1
    with st have "stats s' = (stats s)\<lparr>total_count := total_count (stats s) + 1,
              yahoo_historical := yahoo_historical (stats s) + 1\<rparr>"
      by (simp only: stats_after_outcome)
    with 1 show ?thesis by simp
  next
    case 2
    with st have "stats s' = (stats s)\<lparr>total_count := total_count (stats s) + 1,
              fmp_api := fmp_api (stats s) + 1\<rparr>"
      by (simp only: stats_after_outcome)
    with 2 show ?thesis by simp
  next
    case 3
    with st have "stats s' = (stats s)\<lparr>total_count := total_count (stats s) + 1,
              calculated := calculated (stats s) + 1\<rparr>"
      by (simp only: stats_after_outcome)
    with 3 show ?thesis by simp
  next
    case 4
    with st have "stats s' = (stats s)\<lparr>total_count := total_count (stats s) + 1,
              yahoo_current := yahoo_current (stats s) + 1\<rparr>"
      by (simp only: stats_after_outcome)
    with 4 show ?thesis by simp
  next
    case 5
    with st have "stats s' = (stats s)\<lparr>total_count := total_count (stats s) + 1,
              failed := failed (stats s) + 1\<rparr>"
      by (simp only: stats_after_outcome)
    with 5 show ?thesis by simp
  qed
qed

lemma stats_consistent_step:
  assumes "stats_consistent (stats s)"
  shows "stats_consistent (stats (snd (get_market_cap w s t d)))"
proof -
  obtain r src s' where g: "get_market_cap w s t d = ((r, src), s')"
    by (metis prod.collapse)
  from get_market_cap_stats_cases[OF g]
  have "stats_consistent (stats s')"
    using assms by (elim disjE conjE; simp add: stats_consistent_def)
  with g show ?thesis by simp
qed

lemma stats_consistent_resolve_many:
  "stats_consistent (stats s) \<Longrightarrow> stats_consistent (stats (resolve_many w s requests))"
  by (induction w s requests rule: resolve_many.induct) (simp_all add: stats_consistent_step)

lemma validate_frame:
  "validate_fmp_api_key w s = (ok, s') \<Longrightarrow>
     same_fields s s' \<and> fmp_api_working s' = fmp_api_working s \<and>
     calls s' = calls s @ [FmpGet ''AAPL'']"
  by (auto simp: validate_fmp_api_key_def Let_def logc_def same_fields_def
      split: option.splits if_splits json_body.splits list.splits)

lemma init_scraper_stats:
  "stats (init_scraper w key targets) =
     \<lparr>yahoo_current = 0, yahoo_historical = 0, fmp_api = 0,
      calculated = 0, failed = 0, total_count = 0\<rparr>"
proof -
  obtain ok s' where v: "validate_fmp_api_key w
        \<lparr>fmp_api_key = key, fmp_api_working = False,
         stats = \<lparr>yahoo_current = 0, yahoo_historical = 0, fmp_api = 0,
                   calculated = 0, failed = 0, total_count = 0\<rparr>,
         target_exchanges = [], ticker_to_exchange = Map.empty, calls = []\<rparr> = (ok, s')"
    by (metis prod.collapse)
  from validate_frame[OF v] show ?thesis
    by (cases ok) (simp_all add: init_scraper_def Let_def v same_fields_def)
qed

lemma init_scraper_cache: "ticker_to_exchange (init_scraper w key targets) = Map.empty"
proof -
  obtain ok s' where v: "validate_fmp_api_key w
        \<lparr>fmp_api_key = key, fmp_api_working = False,
         stats = \<lparr>yahoo_current = 0, yahoo_historical = 0, fmp_api = 0,
                   calculated = 0, failed = 0, total_count = 0\<rparr>,
         target_exchanges = [], ticker_to_exchange = Map.empty, calls = []\<rparr> = (ok, s')"
    by (metis prod.collapse)
  from validate_frame[OF v] show ?thesis
    by (cases ok) (simp_all add: init_scraper_def Let_def v same_fields_def)
qed

text \<open>
  Claim C8. A call of \<^verbatim>\<open>get_market_cap\<close> adds one to \<^verbatim>\<open>total\<close> and one to exactly one of
  the five outcome counters, the one named by the source it returns (\<^verbatim>\<open>failed\<close> for the
  source \<^verbatim>\<open>none\<close>), and changes no other counter. Hence after any sequence of calls on
  a freshly constructed scraper, \<^verbatim>\<open>total\<close> is the sum of the five outcome counters.
\<close>

theorem one_outcome_per_call:
  "(case get_market_cap w s t d of
      ((r, src), s') \<Rightarrow>
        total_count (stats s') = total_count (stats s) + 1 \<and>
        ((src = ''yahoo_historical'' \<and>
          stats s' = (stats s)\<lparr>total_count := total_count (stats s) + 1,
                               yahoo_historical := yahoo_historical (stats s) + 1\<rparr>) \<or>
         (src = ''fmp_api'' \<and>
          stats s' = (stats s)\<lparr>total_count := total_count (stats s) + 1,
                               fmp_api := fmp_api (stats s) + 1\<rparr>) \<or>
         (src = ''calculated'' \<and>
          stats s' = (stats s)\<lparr>total_count := total_count (stats s) + 1,
                               calculated := calculated (stats s) + 1\<rparr>) \<or>
         (src = ''yahoo_current'' \<and>
          stats s' = (stats s)\<lparr>total_count := total_count (stats s) + 1,
                               yahoo_current := yahoo_current (stats s) + 1\<rparr>) \<or>
         (src = ''none'' \<and>
          stats s' = (stats s)\<lparr>total_count := total_count (stats s) + 1,
                               failed := failed (stats s) + 1\<rparr>))) \<and>
   stats_consistent (stats (resolve_many w (init_scraper w key targets) requests))"
proof (rule conjI)
  obtain r src s' where g: "get_market_cap w s t d = ((r, src), s')"
    by (metis prod.collapse)
  show "case get_market_cap w s t d of
      ((r, src), s') \<Rightarrow>
        total_count (stats s') = total_count (stats s) + 1 \<and>
        ((src = ''yahoo_historical'' \<and>
          stats s' = (stats s)\<lparr>total_count := total_count (stats s) + 1,
                               yahoo_historical := yahoo_historical (stats s) + 1\<rparr>) \<or>
         (src = ''fmp_api'' \<and>
          stats s' = (stats s)\<lparr>total_count := total_count (stats s) + 1,
                               fmp_api := fmp_api (stats s) + 1\<rparr>) \<or>
         (src = ''calculated'' \<and>
          stats s' = (stats s)\<lparr>total_count := total_count (stats s) + 1,
                               calculated := calculated (stats s) + 1\<rparr>) \<or>
         (src = ''yahoo_current'' \<and>
          stats s' = (stats s)\<lparr>total_count := total_count (stats s) + 1,
                               yahoo_current := yahoo_current (stats s) + 1\<rparr>) \<or>
         (src = ''none'' \<and>
          stats s' = (stats s)\<lparr>total_count := total_count (stats s) + 1,
                               failed := failed (stats s) + 1\<rparr>))"
    unfolding g prod.case by (rule get_market_cap_stats_cases[OF g])
  have "stats_consistent (stats (init_scraper w key targets))"
    by (simp add: init_scraper_stats stats_consistent_def)
  then show "stats_consistent (stats (resolve_many w (init_scraper w key targets) requests))"
    by (rule stats_consistent_resolve_many)
qed

section \<open>The collector: what a run keeps\<close>

lemma kept_by_stepsI:
  assumes "\<And>al sm s c. I al sm s \<Longrightarrow> I al sm (logc (SecSubmissions c) s)"
    and "\<And>al sm s c. I al sm s \<Longrightarrow> I al sm (logc (SecGet c) s)"
    and "\<And>al sm s tk ex s1. I al sm s \<Longrightarrow> get_ticker_exchange w s tk = (ex, s1) \<Longrightarrow>
        (case ex of None \<Rightarrow> True | Some x \<Rightarrow> x = [] \<or> x \<notin> set (target_exchanges s1)) \<Longrightarrow>
        I al sm s1"
    and "\<And>al sm s tk ex s1 cap src s2 f. I al sm s \<Longrightarrow>
        get_ticker_exchange w s tk = (Some ex, s1) \<Longrightarrow> ex \<noteq> [] \<Longrightarrow>
        ex \<in> set (target_exchanges s1) \<Longrightarrow>
        get_market_cap w s1 tk (filing_date f) = ((cap, src), s2) \<Longrightarrow>
        ticker f = tk \<Longrightarrow> exchange f = ex \<Longrightarrow> market_cap f = cap \<Longrightarrow>
        market_cap_source f = src \<Longrightarrow>
        I (al @ [f]) (sm @ filter (small_cap m) [f]) s2"
  shows "kept_by_steps w m I"
  unfolding kept_by_steps_def
proof (intro conjI allI impI)
  fix al sm s c
  assume "I al sm s"
  then show "I al sm (logc (SecSubmissions c) s)" by (rule assms(1))
next
  fix al sm s c
  assume "I al sm s"
  then show "I al sm (logc (SecGet c) s)" by (rule assms(2))
next
  fix al sm s tk ex s1
  assume "I al sm s" "get_ticker_exchange w s tk = (ex, s1)"
    "case ex of None \<Rightarrow> True | Some x \<Rightarrow> x = [] \<or> x \<notin> set (target_exchanges s1)"
  then show "I al sm s1" by (rule assms(3))
next
  fix al sm s tk ex s1 cap src s2 and f :: filing_info
  assume "I al sm s" "get_ticker_exchange w s tk = (Some ex, s1)" "ex \<noteq> []"
    "ex \<in> set (target_exchanges s1)"
    "get_market_cap w s1 tk (filing_date f) = ((cap, src), s2)"
    "ticker f = tk" "exchange f = ex" "market_cap f = cap" "market_cap_source f = src"
  then show "I (al @ [f]) (sm @ filter (small_cap m) [f]) s2" by (rule assms(4))
qed

lemma kept_log: "kept_by_steps w m I \<Longrightarrow> I al sm s \<Longrightarrow> I al sm (logc (SecSubmissions c) s)"
  unfolding kept_by_steps_def by blast

lemma kept_log_get: "kept_by_steps w m I \<Longrightarrow> I al sm s \<Longrightarrow> I al sm (logc (SecGet c) s)"
  unfolding kept_by_steps_def by blast

lemma kept_skip:
  "kept_by_steps w m I \<Longrightarrow> I al sm s \<Longrightarrow> get_ticker_exchange w s tk = (ex, s1) \<Longrightarrow>
   (case ex of None \<Rightarrow> True | Some x \<Rightarrow> x = [] \<or> x \<notin> set (target_exchanges s1)) \<Longrightarrow>
   I al sm s1"
  unfolding kept_by_steps_def by blast

lemma kept_add:
  "kept_by_steps w m I \<Longrightarrow> I al sm s \<Longrightarrow>
   get_ticker_exchange w s tk = (Some ex, s1) \<Longrightarrow> ex \<noteq> [] \<Longrightarrow>
   ex \<in> set (target_exchanges s1) \<Longrightarrow>
   get_market_cap w s1 tk (filing_date f) = ((cap, src), s2) \<Longrightarrow>
   ticker f = tk \<Longrightarrow> exchange f = ex \<Longrightarrow> market_cap f = cap \<Longrightarrow>
   market_cap_source f = src \<Longrightarrow>
   I (al @ [f]) (sm @ filter (small_cap m) [f]) s2"
  unfolding kept_by_steps_def by blast

lemma check_filing_invariant:
  assumes run: "check_filing w m sd ed c company recent i (acc, s) = Inr (acc', s')"
    and init: "I (all_filings acc) (filings_with_market_cap acc) s"
    and kept: "kept_by_steps w m I"
  shows "I (all_filings acc') (filings_with_market_cap acc') s'"
  using run
proof (cases rule: check_filing_elim)
  case unchanged
  with init show ?thesis by simp
next
  case (skipped ex)
  from kept_skip[OF kept init skipped(1) skipped(2)] skipped(3,4) show ?thesis by simp
next
  case (added ex s1 cap src ftype fdate accession document f)
  have "I (all_filings acc @ [f]) (filings_with_market_cap acc @ filter (small_cap m) [f]) s'"
    by (rule kept_add[OF kept init added(1) added(2) added(3), of f cap src s'])
       (simp_all add: added(4) added(5))
  with added(6,7) show ?thesis by simp
qed

lemma check_filings_invariant:
  assumes run: "check_filings w m sd ed c company recent idxs a = Inr a'"
    and init: "I (all_filings (fst a)) (filings_with_market_cap (fst a)) (snd a)"
    and kept: "kept_by_steps w m I"
  shows "I (all_filings (fst a')) (filings_with_market_cap (fst a')) (snd a')"
  using run init
proof (induction idxs arbitrary: a)
  case Nil
  then show ?case by simp
next
  case (Cons i rest)
  from Cons.prems(1) obtain b where
    st: "check_filing w m sd ed c company recent i a = Inr b"
    and re: "check_filings w m sd ed c company recent rest b = Inr a'"
    by (auto split: sum.split_asm)
  from st have "check_filing w m sd ed c company recent i (fst a, snd a) = Inr (fst b, snd b)"
    by simp
  from check_filing_invariant[OF this Cons.prems(2) kept]
  have "I (all_filings (fst b)) (filings_with_market_cap (fst b)) (snd b)" .
  from Cons.IH[OF re this] show ?case .
qed

lemma process_company_invariant:
  assumes run: "process_company w m sd ed entry a = Inr a'"
    and init: "I (all_filings (fst a)) (filings_with_market_cap (fst a)) (snd a)"
    and kept: "kept_by_steps w m I"
  shows "I (all_filings (fst a')) (filings_with_market_cap (fst a')) (snd a')"
proof -
  obtain c company where e: "entry = (c, company)" by (cases entry)
  obtain acc s where a: "a = (acc, s)" by (cases a)
  let ?s1 = "logc (SecSubmissions c) s"
  from init a have i1: "I (all_filings acc) (filings_with_market_cap acc) ?s1"
    by (simp add: kept_log[OF kept])
  note defs = process_company_def get_submissions_for_cik_def
  show ?thesis
  proof (cases "sec_submissions w (calls s) c")
    case None
    with run e a have "a' = (acc, ?s1)" by (simp add: defs)
    with i1 show ?thesis by simp
  next
    case (Some sub)
    note sb = this
    show ?thesis
    proof (cases "sub_filings sub")
      case None
      with run e a sb have "a' = (acc, ?s1)" by (simp add: defs)
      with i1 show ?thesis by simp
    next
      case (Some ro)
      note so = this
      show ?thesis
      proof (cases ro)
        case None
        with run e a sb so have "a' = (acc, ?s1)" by (simp add: defs)
        with i1 show ?thesis by simp
      next
        case (Some recent)
        note sr = this
        show ?thesis
        proof (cases "form recent = None \<and> filingDate recent = None \<and>
                     accessionNumber recent = None \<and> primaryDocument recent = None")
          case True
          with run e a sb so sr have "a' = (acc, ?s1)" by (simp add: defs)
          with i1 show ?thesis by simp
        next
          case False
          with run e a sb so sr
          have "check_filings w m sd ed c company recent
                  [0..<length (case form recent of None \<Rightarrow> [] | Some fs \<Rightarrow> fs)]
                  (acc, ?s1) = Inr a'"
            by (simp add: defs)
          from check_filings_invariant[OF this _ kept] i1 show ?thesis
            by simp
        qed
      qed
    qed
  qed
qed

lemma process_companies_invariant:
  assumes run: "process_companies w m sd ed entries a = Inr a'"
    and init: "I (all_filings (fst a)) (filings_with_market_cap (fst a)) (snd a)"
    and kept: "kept_by_steps w m I"
  shows "I (all_filings (fst a')) (filings_with_market_cap (fst a')) (snd a')"
  using run init
proof (induction entries arbitrary: a)
  case Nil
  then show ?case by simp
next
  case (Cons entry rest)
  from Cons.prems(1) obtain b where
    st: "process_company w m sd ed entry a = Inr b"
    and re: "process_companies w m sd ed rest b = Inr a'"
    by (auto split: sum.split_asm)
  from process_company_invariant[OF st Cons.prems(2) kept]
  have "I (all_filings (fst b)) (filings_with_market_cap (fst b)) (snd b)" .
  from Cons.IH[OF re this] show ?case .
qed

lemma try_endpoints_invariant:
  assumes kept: "kept_by_steps w m I"
  shows "try_endpoints w s urls = (reg, s') \<Longrightarrow> I al sm s \<Longrightarrow> I al sm s'"
proof (induction urls arbitrary: s)
  case Nil
  then show ?case by simp
next
  case (Cons url rest)
  let ?s1 = "logc (SecGet url) s"
  from Cons.prems(2) have i1: "I al sm ?s1" by (rule kept_log_get[OF kept])
  from Cons.prems(1) have "s' = ?s1 \<or> try_endpoints w ?s1 rest = (reg, s')"
    by (simp add: Let_def split: option.split_asm if_split_asm)
  then show ?case
  proof
    assume "s' = ?s1"
    with i1 show ?thesis by simp
  next
    assume "try_endpoints w ?s1 rest = (reg, s')"
    from Cons.IH[OF this i1] show ?thesis .
  qed
qed

text \<open>The invariant principle for a whole run of the collector.\<close>

lemma collection_invariant:
  assumes run: "find_form25_filings_with_market_cap w s sd ed m = Inr ((al, sm), s')"
    and init: "I [] [] s"
    and kept: "kept_by_steps w m I"
  shows "I al sm s'"
proof -
  obtain reg s1 where r: "get_company_tickers w s = (reg, s1)"
    by (cases "get_company_tickers w s")
  from r init have i1: "I [] [] s1"
    unfolding get_company_tickers_def by (rule try_endpoints_invariant[OF kept])
  from run r obtain start_dt end_dt acc where
    p: "process_companies w m start_dt end_dt reg
          (\<lparr>all_filings = [], filings_with_market_cap = [],
            skipped_exchange = 0, skipped_no_exchange = 0\<rparr>, s1) = Inr (acc, s')"
    and res: "al = all_filings acc" "sm = filings_with_market_cap acc"
    by (auto simp: find_form25_filings_with_market_cap_def
        split: option.split_asm sum.split_asm)
  from process_companies_invariant[OF p _ kept] i1 res show ?thesis
    by simp
qed

section \<open>The exchange lookup\<close>

lemma exchange_mapping_range:
  "exchange_mapping x = Some e \<Longrightarrow>
     e = ''NYSE'' \<or> e = ''NASDAQ'' \<or> e = ''AMEX'' \<or> e = ''NYSE ARCA''"
  by (simp add: exchange_mapping_def split: if_split_asm)

lemma get_ticker_exchange_None:
  assumes "get_ticker_exchange w s t = (None, s')"
  shows "ticker_to_exchange s t = None" and "s' = logc (YfInfo t) s"
  using assms
  by (simp_all add: get_ticker_exchange_def Let_def
      split: option.split_asm pyval.split_asm if_split_asm)

lemma get_ticker_exchange_Some:
  assumes "get_ticker_exchange w s t = (Some e, s')"
  shows "(ticker_to_exchange s t = Some e \<and> s' = s) \<or>
         (ticker_to_exchange s t = None \<and> e \<noteq> [] \<and>
          (\<exists>d raw. yf_info w (calls s) t = Some d \<and>
                   get_default d ''exchange'' (PyStr []) = PyStr raw \<and>
                   exchange_mapping (upper raw) = Some e) \<and>
          s' = (logc (YfInfo t) s)\<lparr>ticker_to_exchange := (ticker_to_exchange s)(t \<mapsto> e)\<rparr>)"
  using assms
  by (simp add: get_ticker_exchange_def Let_def logc_def
      split: option.split_asm pyval.split_asm if_split_asm)

lemma get_ticker_exchange_frame:
  assumes "get_ticker_exchange w s t = (r, s')"
  shows "fmp_api_key s' = fmp_api_key s" and "fmp_api_working s' = fmp_api_working s"
    and "stats s' = stats s" and "target_exchanges s' = target_exchanges s"
    and "calls s' = calls s \<or> calls s' = calls s @ [YfInfo t]"
proof -
  have "s' = s \<or> s' = logc (YfInfo t) s \<or>
        (\<exists>e. s' = (logc (YfInfo t) s)\<lparr>ticker_to_exchange := (ticker_to_exchange s)(t \<mapsto> e)\<rparr>)"
  proof (cases r)
    case None
    with assms show ?thesis by (simp add: get_ticker_exchange_None)
  next
    case (Some e)
    with assms get_ticker_exchange_Some[of w s t e s'] show ?thesis by blast
  qed
  then show "fmp_api_key s' = fmp_api_key s" "fmp_api_working s' = fmp_api_working s"
    "stats s' = stats s" "target_exchanges s' = target_exchanges s"
    "calls s' = calls s \<or> calls s' = calls s @ [YfInfo t]"
    by (auto simp: logc_def)
qed

section \<open>The end-to-end scenario\<close>

lemma acme_run:
  "\<exists>s'. find_form25_filings_with_market_cap acme_world (init_scraper acme_world None None)
          ''2015-01-01'' ''2024-12-31'' 2000000000 = Inr (([acme_filing], [acme_filing]), s')"
  by (simp add: find_form25_filings_with_market_cap_def get_company_tickers_def endpoints_def
      acme_world_def init_scraper_def key_given_def Let_def logc_def zfill_def
      process_company_def get_submissions_for_cik_def check_filing_def index_def
      get_ticker_exchange_def get_default_def get_key_def exchange_mapping_def upper_def
      upper_char_def get_market_cap_def get_yahoo_historical_def calculate_from_yahoo_data_def
      price_times_shares_def sanity_check_def bump_total_def bump_calculated_def
      acme_filing_def upt_rec eval_nat_numeral)

section \<open>The small-cap list\<close>

lemma small_cap_iff: "small_cap m f = (\<exists>v. market_cap f = Some v \<and> v < m)"
  by (simp add: small_cap_def split: option.split)

lemma filtered_kept: "kept_by_steps w m (\<lambda>al sm s. sm = filter (small_cap m) al)"
  by (rule kept_by_stepsI) simp_all

text \<open>
  Claim C3. When a run of the collector with threshold \<open>T\<close> returns, the small-cap list is
  the all-events list filtered, in order, by "market cap present and strictly below \<open>T\<close>":
  an event is in the small-cap list if and only if it is in the all-events list with a
  market cap present and below \<open>T\<close>, and no event without a market cap is in it.
\<close>

theorem small_caps_are_filtered_events:
  assumes "find_form25_filings_with_market_cap w s start_date end_date T =
             Inr ((all_events, small_caps), s')"
  shows "small_caps = filter (small_cap T) all_events \<and>
         (\<forall>f. f \<in> set small_caps \<longleftrightarrow>
                f \<in> set all_events \<and> (\<exists>v. market_cap f = Some v \<and> v < T)) \<and>
         (\<forall>f. market_cap f = None \<longrightarrow> f \<notin> set small_caps)"
proof -
  have a: "small_caps = filter (small_cap T) all_events"
    by (rule collection_invariant[OF assms _ filtered_kept]) simp
  then show ?thesis
    by (simp add: small_cap_iff)
qed

theorem small_caps_are_filtered_events_witness:
  "(\<exists>s'. find_form25_filings_with_market_cap acme_world (init_scraper acme_world None None)
            ''2015-01-01'' ''2024-12-31'' 2000000000 = Inr (([acme_filing], [acme_filing]), s')) \<and>
   [acme_filing] = filter (small_cap 2000000000) [acme_filing] \<and>
   market_cap acme_filing = Some 50000000 \<and> (50000000 :: real) < 2000000000"
proof -
  from acme_run obtain s' where
    r: "find_form25_filings_with_market_cap acme_world (init_scraper acme_world None None)
          ''2015-01-01'' ''2024-12-31'' 2000000000 = Inr (([acme_filing], [acme_filing]), s')" ..
  have a: "[acme_filing] = filter (small_cap 2000000000) [acme_filing]"
    using small_caps_are_filtered_events[OF r] by (rule conjunct1)
  have b: "market_cap acme_filing = Some 50000000"
    by (simp add: acme_filing_def)
  have c: "(50000000 :: real) < 2000000000"
    by simp
  show ?thesis
    by (intro conjI acme_run a b c)
qed

section \<open>Source and exchange of the collected events\<close>

lemma source_agrees_kept:
  "kept_by_steps w m (\<lambda>al sm s. (\<forall>f \<in> set al. source_agrees f) \<and> (\<forall>f \<in> set sm. source_agrees f))"
proof (rule kept_by_stepsI)
  fix al sm s tk ex s1 cap src s2 and f :: filing_info
  assume i: "(\<forall>f \<in> set al. source_agrees f) \<and> (\<forall>f \<in> set sm. source_agrees f)"
    and g: "get_market_cap w s1 tk (filing_date f) = ((cap, src), s2)"
    and f: "market_cap f = cap" "market_cap_source f = src"
  from get_market_cap_post(8,9)[OF g] f have "source_agrees f"
    unfolding source_agrees_def by simp
  with i show "(\<forall>f \<in> set (al @ [f]). source_agrees f) \<and>
               (\<forall>f \<in> set (sm @ filter (small_cap m) [f]). source_agrees f)"
    by simp
qed simp_all

text \<open>
  Claim C2. A call of \<^verbatim>\<open>get_market_cap\<close> returns a value exactly when the source it
  returns is not \<^verbatim>\<open>none\<close>, and the source is one of the four strategy names or \<^verbatim>\<open>none\<close>.
  So in every event of either list a run returns, \<^verbatim>\<open>market_cap\<close> is present if and only
  if \<^verbatim>\<open>market_cap_source\<close> is not \<^verbatim>\<open>none\<close>.
\<close>

theorem market_cap_present_iff_source:
  "(case get_market_cap w s t d of
      ((r, src), s1) \<Rightarrow>
        (r \<noteq> None) = (src \<noteq> ''none'') \<and>
        (src = ''yahoo_historical'' \<or> src = ''fmp_api'' \<or> src = ''calculated'' \<or>
         src = ''yahoo_current'' \<or> src = ''none'')) \<and>
   (find_form25_filings_with_market_cap w s start_date end_date T =
      Inr ((all_events, small_caps), s') \<longrightarrow>
    (\<forall>f. f \<in> set all_events \<or> f \<in> set small_caps \<longrightarrow>
       (market_cap f \<noteq> None) = (market_cap_source f \<noteq> ''none'') \<and>
       (market_cap_source f = ''yahoo_historical'' \<or> market_cap_source f = ''fmp_api'' \<or>
        market_cap_source f = ''calculated'' \<or> market_cap_source f = ''yahoo_current'' \<or>
        market_cap_source f = ''none'')))"
proof (rule conjI)
  obtain r src s1 where g: "get_market_cap w s t d = ((r, src), s1)"
    by (metis prod.collapse)
  show "case get_market_cap w s t d of
      ((r, src), s1) \<Rightarrow>
        (r \<noteq> None) = (src \<noteq> ''none'') \<and>
        (src = ''yahoo_historical'' \<or> src = ''fmp_api'' \<or> src = ''calculated'' \<or>
         src = ''yahoo_current'' \<or> src = ''none'')"
    unfolding g prod.case by (intro conjI get_market_cap_post(8,9)[OF g])
next
  show "find_form25_filings_with_market_cap w s start_date end_date T =
      Inr ((all_events, small_caps), s') \<longrightarrow>
    (\<forall>f. f \<in> set all_events \<or> f \<in> set small_caps \<longrightarrow>
       (market_cap f \<noteq> None) = (market_cap_source f \<noteq> ''none'') \<and>
       (market_cap_source f = ''yahoo_historical'' \<or> market_cap_source f = ''fmp_api'' \<or>
        market_cap_source f = ''calculated'' \<or> market_cap_source f = ''yahoo_current'' \<or>
        market_cap_source f = ''none''))"
  proof (intro impI allI)
    fix f
    assume run: "find_form25_filings_with_market_cap w s start_date end_date T =
        Inr ((all_events, small_caps), s')"
      and f: "f \<in> set all_events \<or> f \<in> set small_caps"
    have "(\<forall>f \<in> set all_events. source_agrees f) \<and> (\<forall>f \<in> set small_caps. source_agrees f)"
      by (rule collection_invariant[OF run _ source_agrees_kept]) simp
    with f have "source_agrees f" by blast
    then show "(market_cap f \<noteq> None) = (market_cap_source f \<noteq> ''none'') \<and>
         (market_cap_source f = ''yahoo_historical'' \<or> market_cap_source f = ''fmp_api'' \<or>
          market_cap_source f = ''calculated'' \<or> market_cap_source f = ''yahoo_current'' \<or>
          market_cap_source f = ''none'')"
      unfolding source_agrees_def .
  qed
qed

theorem market_cap_present_iff_source_witness:
  "(\<exists>s'. find_form25_filings_with_market_cap acme_world (init_scraper acme_world None None)
            ''2015-01-01'' ''2024-12-31'' 2000000000 = Inr (([acme_filing], [acme_filing]), s')) \<and>
   acme_filing \<in> set [acme_filing] \<and>
   (market_cap acme_filing \<noteq> None) = (market_cap_source acme_filing \<noteq> ''none'') \<and>
   market_cap acme_filing = Some 50000000 \<and> market_cap_source acme_filing = ''calculated''"
proof -
  from acme_run obtain s' where
    r: "find_form25_filings_with_market_cap acme_world (init_scraper acme_world None None)
          ''2015-01-01'' ''2024-12-31'' 2000000000 = Inr (([acme_filing], [acme_filing]), s')" ..
  have m: "acme_filing \<in> set [acme_filing]" by simp
  from market_cap_present_iff_source[of acme_world "init_scraper acme_world None None"
      "''ABCD''" "''2020-06-15''" "''2015-01-01''" "''2024-12-31''" 2000000000
      "[acme_filing]" "[acme_filing]" s'] r m
  have a: "(market_cap acme_filing \<noteq> None) = (market_cap_source acme_filing \<noteq> ''none'')"
    by blast
  have b: "market_cap acme_filing = Some 50000000"
    by (simp add: acme_filing_def)
  have c: "market_cap_source acme_filing = ''calculated''"
    by (simp add: acme_filing_def)
  show ?thesis
    by (intro conjI acme_run m a b c)
qed

lemma otc_lookup:
  "fst (get_ticker_exchange otc_world (init_scraper otc_world None None) ''ABCD'') = None"
  by (simp add: get_ticker_exchange_def otc_world_def acme_world_def init_scraper_def
      key_given_def Let_def logc_def get_default_def exchange_mapping_def upper_def upper_char_def)

lemma otc_step:
  "\<exists>s1. check_filing otc_world 2000000000 16436 20088 ''0000000001'' acme_company acme_recent 1
          (no_filings, init_scraper otc_world None None) =
        Inr (no_filings\<lparr>skipped_no_exchange := 1\<rparr>, s1)"
  by (simp add: check_filing_def index_def acme_recent_def acme_company_def no_filings_def
      get_ticker_exchange_def otc_world_def acme_world_def init_scraper_def
      key_given_def Let_def logc_def get_default_def exchange_mapping_def upper_def upper_char_def)

lemma init_scraper_targets_default:
  "target_exchanges (init_scraper w None None) = [''NYSE'', ''NASDAQ'', ''AMEX'']"
  by (simp add: init_scraper_def key_given_def Let_def)

lemma listed_kept:
  "kept_by_steps w m (\<lambda>al sm st. target_exchanges st = target_exchanges s \<and>
      (\<forall>f \<in> set al. listed s f) \<and> (\<forall>f \<in> set sm. listed s f))"
proof (rule kept_by_stepsI)
  fix al sm c and st :: state
  assume "target_exchanges st = target_exchanges s \<and>
      (\<forall>f \<in> set al. listed s f) \<and> (\<forall>f \<in> set sm. listed s f)"
  then show "target_exchanges (logc (SecSubmissions c) st) = target_exchanges s \<and>
      (\<forall>f \<in> set al. listed s f) \<and> (\<forall>f \<in> set sm. listed s f)"
    by (simp add: logc_def)
next
  fix al sm c and st :: state
  assume "target_exchanges st = target_exchanges s \<and>
      (\<forall>f \<in> set al. listed s f) \<and> (\<forall>f \<in> set sm. listed s f)"
  then show "target_exchanges (logc (SecGet c) st) = target_exchanges s \<and>
      (\<forall>f \<in> set al. listed s f) \<and> (\<forall>f \<in> set sm. listed s f)"
    by (simp add: logc_def)
next
  fix al sm tk ex s1 and st :: state
  assume i: "target_exchanges st = target_exchanges s \<and>
      (\<forall>f \<in> set al. listed s f) \<and> (\<forall>f \<in> set sm. listed s f)"
    and g: "get_ticker_exchange w st tk = (ex, s1)"
  from get_ticker_exchange_frame(4)[OF g] i
  show "target_exchanges s1 = target_exchanges s \<and>
      (\<forall>f \<in> set al. listed s f) \<and> (\<forall>f \<in> set sm. listed s f)"
    by simp
next
  fix al sm tk ex s1 cap src s2 and st :: state and f :: filing_info
  assume i: "target_exchanges st = target_exchanges s \<and>
      (\<forall>f \<in> set al. listed s f) \<and> (\<forall>f \<in> set sm. listed s f)"
    and g: "get_ticker_exchange w st tk = (Some ex, s1)"
    and x: "ex \<noteq> []" "ex \<in> set (target_exchanges s1)" "exchange f = ex"
    and c: "get_market_cap w s1 tk (filing_date f) = ((cap, src), s2)"
  from get_ticker_exchange_frame(4)[OF g] i have t1: "target_exchanges s1 = target_exchanges s"
    by simp
  with get_market_cap_post(2)[OF c] have t2: "target_exchanges s2 = target_exchanges s"
    by simp
  from x t1 have "listed s f" by (simp add: listed_def)
  with i t2 show "target_exchanges s2 = target_exchanges s \<and>
      (\<forall>f \<in> set (al @ [f]). listed s f) \<and>
      (\<forall>f \<in> set (sm @ filter (small_cap m) [f]). listed s f)"
    by simp
qed

lemma unresolved_is_skipped:
  assumes run: "check_filing w T sd ed c company recent i (acc, s) = Inr (acc', s1)"
    and out: "case fst (get_ticker_exchange w s (info_ticker company)) of
                None \<Rightarrow> True | Some x \<Rightarrow> x \<notin> set (target_exchanges s)"
  shows "all_filings acc' = all_filings acc \<and>
         filings_with_market_cap acc' = filings_with_market_cap acc"
  using run
proof (cases rule: check_filing_elim)
  case unchanged
  then show ?thesis by simp
next
  case (skipped ex)
  then show ?thesis by simp
next
  case (added ex s2 cap src ftype fdate accession document f)
  from get_ticker_exchange_frame(4)[OF added(1)] added(3)
  have "ex \<in> set (target_exchanges s)" by simp
  with out added(1) show ?thesis by simp
qed

text \<open>
  Claim C6. Every event of either list a run returns carries an exchange of the configured
  target set. And a Form 25 entry in the date range whose ticker's exchange lookup gives
  \<^verbatim>\<open>None\<close> (unknown code, or no answer) or a name outside the target set leaves both lists
  as they were: the step \<open>check_filing\<close> appends nothing.
\<close>

theorem only_target_exchanges_collected:
  "(find_form25_filings_with_market_cap w s start_date end_date T =
      Inr ((all_events, small_caps), s') \<longrightarrow>
    (\<forall>f. f \<in> set all_events \<or> f \<in> set small_caps \<longrightarrow>
         exchange f \<in> set (target_exchanges s) \<and> exchange f \<noteq> [])) \<and>
   (check_filing w T sd ed c company recent i (acc, s) = Inr (acc', s1) \<longrightarrow>
    (case fst (get_ticker_exchange w s (info_ticker company)) of
       None \<Rightarrow> True | Some x \<Rightarrow> x \<notin> set (target_exchanges s)) \<longrightarrow>
    all_filings acc' = all_filings acc \<and>
    filings_with_market_cap acc' = filings_with_market_cap acc)"
proof (rule conjI)
  show "find_form25_filings_with_market_cap w s start_date end_date T =
      Inr ((all_events, small_caps), s') \<longrightarrow>
    (\<forall>f. f \<in> set all_events \<or> f \<in> set small_caps \<longrightarrow>
         exchange f \<in> set (target_exchanges s) \<and> exchange f \<noteq> [])"
  proof (intro impI allI)
    fix f
    assume run: "find_form25_filings_with_market_cap w s start_date end_date T =
        Inr ((all_events, small_caps), s')"
      and f: "f \<in> set all_events \<or> f \<in> set small_caps"
    have "target_exchanges s' = target_exchanges s \<and>
        (\<forall>f \<in> set all_events. listed s f) \<and> (\<forall>f \<in> set small_caps. listed s f)"
      by (rule collection_invariant[OF run _ listed_kept]) simp
    with f have "listed s f" by blast
    then show "exchange f \<in> set (target_exchanges s) \<and> exchange f \<noteq> []"
      unfolding listed_def .
  qed
next
  show "check_filing w T sd ed c company recent i (acc, s) = Inr (acc', s1) \<longrightarrow>
    (case fst (get_ticker_exchange w s (info_ticker company)) of
       None \<Rightarrow> True | Some x \<Rightarrow> x \<notin> set (target_exchanges s)) \<longrightarrow>
    all_filings acc' = all_filings acc \<and>
    filings_with_market_cap acc' = filings_with_market_cap acc"
    by (intro impI) (rule unresolved_is_skipped)
qed

text \<open>
  The two scenarios of the specification: on NASDAQ the event is collected, with an exchange
  of the default target set; with the over-the-counter code the step appends nothing.
\<close>

theorem only_target_exchanges_collected_witness:
  "(\<exists>s'. find_form25_filings_with_market_cap acme_world (init_scraper acme_world None None)
            ''2015-01-01'' ''2024-12-31'' 2000000000 = Inr (([acme_filing], [acme_filing]), s')) \<and>
   exchange acme_filing \<in> set (target_exchanges (init_scraper acme_world None None)) \<and>
   exchange acme_filing = ''NASDAQ'' \<and>
   fst (get_ticker_exchange otc_world (init_scraper otc_world None None) ''ABCD'') = None \<and>
   (\<exists>s1. check_filing otc_world 2000000000 16436 20088 ''0000000001'' acme_company acme_recent 1
            (no_filings, init_scraper otc_world None None) =
          Inr (no_filings\<lparr>skipped_no_exchange := 1\<rparr>, s1)) \<and>
   all_filings (no_filings\<lparr>skipped_no_exchange := 1\<rparr>) = all_filings no_filings \<and>
   filings_with_market_cap (no_filings\<lparr>skipped_no_exchange := 1\<rparr>) =
     filings_with_market_cap no_filings"
proof -
  from acme_run obtain s' where
    r: "find_form25_filings_with_market_cap acme_world (init_scraper acme_world None None)
          ''2015-01-01'' ''2024-12-31'' 2000000000 = Inr (([acme_filing], [acme_filing]), s')" ..
  from otc_step obtain s1 where
    st: "check_filing otc_world 2000000000 16436 20088 ''0000000001'' acme_company acme_recent 1
            (no_filings, init_scraper otc_world None None) =
          Inr (no_filings\<lparr>skipped_no_exchange := 1\<rparr>, s1)" ..
  have m: "acme_filing \<in> set [acme_filing] \<or> acme_filing \<in> set [acme_filing]" by simp
  note t1 = only_target_exchanges_collected[where w = acme_world
      and s = "init_scraper acme_world None None" and start_date = "''2015-01-01''"
      and end_date = "''2024-12-31''" and T = 2000000000 and all_events = "[acme_filing]"
      and small_caps = "[acme_filing]" and s' = s',
      THEN conjunct1, rule_format, OF r m]
  have lk: "case fst (get_ticker_exchange otc_world (init_scraper otc_world None None)
                   (info_ticker acme_company)) of
              None \<Rightarrow> True
            | Some x \<Rightarrow> x \<notin> set (target_exchanges (init_scraper otc_world None None))"
    using otc_lookup by (simp add: acme_company_def)
  note t2 = only_target_exchanges_collected[where w = otc_world
      and s = "init_scraper otc_world None None" and T = 2000000000 and sd = 16436
      and ed = 20088 and c = "''0000000001''" and company = acme_company
      and recent = acme_recent and i = 1 and acc = no_filings
      and acc' = "no_filings\<lparr>skipped_no_exchange := 1\<rparr>" and ?s1.0 = s1,
      THEN conjunct2, rule_format, OF st lk]
  have e: "exchange acme_filing = ''NASDAQ''"
    by (simp add: acme_filing_def)
  show ?thesis
    by (intro conjI acme_run otc_lookup otc_step e t1[THEN conjunct1] t2[THEN conjunct1]
        t2[THEN conjunct2])
qed

section \<open>The exchange cache\<close>

lemma cache_ok_lookup:
  assumes g: "get_ticker_exchange w s t = (r, s1)" and ok: "cache_ok s"
  shows "cache_ok s1"
proof (cases r)
  case None
  with g have "s1 = logc (YfInfo t) s"
    by (simp add: get_ticker_exchange_None)
  then have "ticker_to_exchange s1 = ticker_to_exchange s"
    by (simp add: logc_def)
  with ok show ?thesis by (simp add: cache_ok_def)
next
  case (Some e)
  with g have g': "get_ticker_exchange w s t = (Some e, s1)"
    by simp
  note get_ticker_exchange_Some[OF g']
  then show ?thesis
  proof
    assume "ticker_to_exchange s t = Some e \<and> s1 = s"
    with ok show ?thesis by simp
  next
    assume a: "ticker_to_exchange s t = None \<and> e \<noteq> [] \<and>
          (\<exists>d raw. yf_info w (calls s) t = Some d \<and>
                   get_default d ''exchange'' (PyStr []) = PyStr raw \<and>
                   exchange_mapping (upper raw) = Some e) \<and>
          s1 = (logc (YfInfo t) s)\<lparr>ticker_to_exchange := (ticker_to_exchange s)(t \<mapsto> e)\<rparr>"
    then obtain x where "exchange_mapping x = Some e" by blast
    then have e: "e = ''NYSE'' \<or> e = ''NASDAQ'' \<or> e = ''AMEX'' \<or> e = ''NYSE ARCA''"
      by (rule exchange_mapping_range)
    from a have c: "ticker_to_exchange s1 = (ticker_to_exchange s)(t \<mapsto> e)"
      by (simp add: logc_def)
    show ?thesis
      unfolding cache_ok_def c
    proof (intro allI impI)
      fix t' e'
      assume h: "((ticker_to_exchange s)(t \<mapsto> e)) t' = Some e'"
      show "e' = ''NYSE'' \<or> e' = ''NASDAQ'' \<or> e' = ''AMEX'' \<or> e' = ''NYSE ARCA''"
      proof (cases "t' = t")
        case True
        with h have "e' = e" by simp
        with e show ?thesis by simp
      next
        case False
        with h have "ticker_to_exchange s t' = Some e'" by simp
        with ok show ?thesis unfolding cache_ok_def by blast
      qed
    qed
  qed
qed

lemma cache_ok_kept: "kept_by_steps w m (\<lambda>al sm st. cache_ok st)"
proof (rule kept_by_stepsI)
  fix al sm c and st :: state
  assume "cache_ok st"
  then show "cache_ok (logc (SecSubmissions c) st)" by (simp add: cache_ok_def logc_def)
next
  fix al sm c and st :: state
  assume "cache_ok st"
  then show "cache_ok (logc (SecGet c) st)" by (simp add: cache_ok_def logc_def)
next
  fix al sm tk ex s1 and st :: state
  assume "cache_ok st" "get_ticker_exchange w st tk = (ex, s1)"
  then show "cache_ok s1" by (rule cache_ok_lookup[rotated])
next
  fix al sm tk ex s1 cap src s2 and st :: state and f :: filing_info
  assume ok: "cache_ok st" and g: "get_ticker_exchange w st tk = (Some ex, s1)"
    and c: "get_market_cap w s1 tk (filing_date f) = ((cap, src), s2)"
  from cache_ok_lookup[OF g ok] get_market_cap_post(3)[OF c]
  show "cache_ok s2" by (simp add: cache_ok_def)
qed

lemma cache_miss_calls:
  assumes "ticker_to_exchange s t = None"
  shows "calls (snd (get_ticker_exchange w s t)) = calls s @ [YfInfo t]"
  using assms
  by (simp add: get_ticker_exchange_def Let_def logc_def
      split: option.split pyval.split)

lemma cache_hit:
  assumes "get_ticker_exchange w s t = (r, s1)" and "ticker_to_exchange s t \<noteq> None"
  shows "r = ticker_to_exchange s t \<and> s1 = s"
  using assms by (auto simp: get_ticker_exchange_def)

text \<open>
  Claim C10. The exchange cache is written only by a successful lookup. A lookup that
  returns \<^verbatim>\<open>None\<close> leaves the cache as it was, with no entry for the ticker, after one
  request for \<^verbatim>\<open>stock.info\<close>; and every lookup of a ticker without an entry makes that
  request, so each later filing of such a ticker is looked up afresh. A lookup that returns
  an exchange for a ticker without an entry got it from the code-to-exchange table applied
  to the upper-cased code Yahoo Finance reported, and stores exactly that entry. A ticker
  with an entry is answered from the cache and nothing changes. The table yields only
  NYSE, NASDAQ, AMEX and NYSE ARCA, so every cached value is one of these, after any lookup
  and at the end of every run of the collector started on a fresh scraper.
\<close>

theorem cache_written_only_on_success:
  "(get_ticker_exchange w s t = (None, s1) \<longrightarrow>
      ticker_to_exchange s1 = ticker_to_exchange s \<and> ticker_to_exchange s1 t = None \<and>
      calls s1 = calls s @ [YfInfo t]) \<and>
   (ticker_to_exchange s t = None \<longrightarrow>
      calls (snd (get_ticker_exchange w s t)) = calls s @ [YfInfo t]) \<and>
   (get_ticker_exchange w s t = (Some e, s1) \<longrightarrow> ticker_to_exchange s t = None \<longrightarrow>
      (\<exists>d raw. yf_info w (calls s) t = Some d \<and>
               get_default d ''exchange'' (PyStr []) = PyStr raw \<and>
               exchange_mapping (upper raw) = Some e) \<and>
      ticker_to_exchange s1 = (ticker_to_exchange s)(t \<mapsto> e)) \<and>
   (get_ticker_exchange w s t = (r, s1) \<longrightarrow> ticker_to_exchange s t \<noteq> None \<longrightarrow>
      r = ticker_to_exchange s t \<and> s1 = s) \<and>
   (exchange_mapping x = Some e \<longrightarrow>
      e = ''NYSE'' \<or> e = ''NASDAQ'' \<or> e = ''AMEX'' \<or> e = ''NYSE ARCA'') \<and>
   (get_ticker_exchange w s t = (r, s1) \<longrightarrow> cache_ok s \<longrightarrow> cache_ok s1) \<and>
   (find_form25_filings_with_market_cap w (init_scraper w key targets) start_date end_date T =
      Inr (res, s') \<longrightarrow> cache_ok s')"
proof (intro conjI impI)
  assume g: "get_ticker_exchange w s t = (None, s1)"
  from get_ticker_exchange_None[OF g]
  show "ticker_to_exchange s1 = ticker_to_exchange s" "ticker_to_exchange s1 t = None"
    "calls s1 = calls s @ [YfInfo t]"
    by (simp_all add: logc_def)
next
  assume "ticker_to_exchange s t = None"
  then show "calls (snd (get_ticker_exchange w s t)) = calls s @ [YfInfo t]"
    by (rule cache_miss_calls)
next
  assume g: "get_ticker_exchange w s t = (Some e, s1)" and n: "ticker_to_exchange s t = None"
  from get_ticker_exchange_Some[OF g] n
  show "\<exists>d raw. yf_info w (calls s) t = Some d \<and>
               get_default d ''exchange'' (PyStr []) = PyStr raw \<and>
               exchange_mapping (upper raw) = Some e"
    and "ticker_to_exchange s1 = (ticker_to_exchange s)(t \<mapsto> e)"
    by (simp_all add: logc_def)
next
  assume "get_ticker_exchange w s t = (r, s1)" "ticker_to_exchange s t \<noteq> None"
  then have "r = ticker_to_exchange s t \<and> s1 = s" by (rule cache_hit)
  then show "r = ticker_to_exchange s t" "s1 = s" by simp_all
next
  assume "exchange_mapping x = Some e"
  then show "e = ''NYSE'' \<or> e = ''NASDAQ'' \<or> e = ''AMEX'' \<or> e = ''NYSE ARCA''"
    by (rule exchange_mapping_range)
next
  assume "get_ticker_exchange w s t = (r, s1)" "cache_ok s"
  then show "cache_ok s1" by (rule cache_ok_lookup)
next
  assume run: "find_form25_filings_with_market_cap w (init_scraper w key targets)
      start_date end_date T = Inr (res, s')"
  obtain al sm where res: "res = (al, sm)" by (cases res)
  have "cache_ok (init_scraper w key targets)"
    by (simp add: cache_ok_def init_scraper_cache)
  with run[unfolded res] show "cache_ok s'"
    by (rule collection_invariant[OF _ _ cache_ok_kept])
qed

lemma acme_lookup:
  "\<exists>s1. get_ticker_exchange acme_world (init_scraper acme_world None None) ''ABCD'' =
          (Some ''NASDAQ'', s1)"
  by (simp add: get_ticker_exchange_def acme_world_def init_scraper_def
      key_given_def Let_def logc_def get_default_def exchange_mapping_def upper_def upper_char_def)

lemma otc_lookup_None:
  "\<exists>s1. get_ticker_exchange otc_world (init_scraper otc_world None None) ''ABCD'' = (None, s1)"
  using otc_lookup by (metis prod.collapse)

theorem cache_written_only_on_success_witness:
  "(\<exists>s1. get_ticker_exchange otc_world (init_scraper otc_world None None) ''ABCD'' = (None, s1) \<and>
         ticker_to_exchange s1 ''ABCD'' = None \<and>
         calls s1 = calls (init_scraper otc_world None None) @ [YfInfo ''ABCD'']) \<and>
   (\<exists>s1. get_ticker_exchange acme_world (init_scraper acme_world None None) ''ABCD'' =
            (Some ''NASDAQ'', s1) \<and>
         ticker_to_exchange s1 ''ABCD'' = Some ''NASDAQ'' \<and> cache_ok s1) \<and>
   (\<exists>s'. find_form25_filings_with_market_cap acme_world (init_scraper acme_world None None)
            ''2015-01-01'' ''2024-12-31'' 2000000000 = Inr (([acme_filing], [acme_filing]), s') \<and>
         cache_ok s')"
proof (intro conjI)
  from otc_lookup_None obtain s1 where
    g: "get_ticker_exchange otc_world (init_scraper otc_world None None) ''ABCD'' = (None, s1)" ..
  note a = cache_written_only_on_success[where w = otc_world
      and s = "init_scraper otc_world None None" and t = "''ABCD''" and ?s1.0 = s1,
      THEN conjunct1, rule_format, OF g]
  from g a show "\<exists>s1. get_ticker_exchange otc_world (init_scraper otc_world None None) ''ABCD'' =
           (None, s1) \<and> ticker_to_exchange s1 ''ABCD'' = None \<and>
         calls s1 = calls (init_scraper otc_world None None) @ [YfInfo ''ABCD'']"
    by (intro exI[of _ s1] conjI) (simp_all add: init_scraper_cache)
next
  let ?s = "init_scraper acme_world None None"
  from acme_lookup obtain s1 where
    g: "get_ticker_exchange acme_world ?s ''ABCD'' = (Some ''NASDAQ'', s1)" ..
  have n: "ticker_to_exchange ?s ''ABCD'' = None"
    by (simp add: init_scraper_cache)
  have ok: "cache_ok ?s"
    by (simp add: cache_ok_def init_scraper_cache)
  note th = cache_written_only_on_success[where w = acme_world and s = ?s and t = "''ABCD''"
      and e = "''NASDAQ''" and r = "Some ''NASDAQ''" and ?s1.0 = s1]
  from th g n have "ticker_to_exchange s1 = (ticker_to_exchange ?s)(''ABCD'' \<mapsto> ''NASDAQ'')"
    by blast
  then have c: "ticker_to_exchange s1 ''ABCD'' = Some ''NASDAQ''"
    by simp
  from th g ok have "cache_ok s1"
    by blast
  with g c show "\<exists>s1. get_ticker_exchange acme_world ?s ''ABCD'' = (Some ''NASDAQ'', s1) \<and>
         ticker_to_exchange s1 ''ABCD'' = Some ''NASDAQ'' \<and> cache_ok s1"
    by (intro exI[of _ s1]) simp
next
  from acme_run obtain s' where
    r: "find_form25_filings_with_market_cap acme_world (init_scraper acme_world None None)
          ''2015-01-01'' ''2024-12-31'' 2000000000 = Inr (([acme_filing], [acme_filing]), s')" ..
  from cache_written_only_on_success[where w = acme_world and key = None and targets = None
      and start_date = "''2015-01-01''" and end_date = "''2024-12-31''" and T = 2000000000
      and res = "([acme_filing], [acme_filing])" and s' = s'] r
  have "cache_ok s'" by blast
  with r show "\<exists>s'. find_form25_filings_with_market_cap acme_world
            (init_scraper acme_world None None)
            ''2015-01-01'' ''2024-12-31'' 2000000000 = Inr (([acme_filing], [acme_filing]), s') \<and>
         cache_ok s'"
    by (intro exI[of _ s']) simp
qed

section \<open>The order of the strategies, and the FMP flag\<close>

lemma new_calls_append: "calls s' = calls s @ cs \<Longrightarrow> new_calls s s' = cs"
  by (simp add: new_calls_def)

lemma first_strategy_wins:
  assumes y: "get_yahoo_historical w (bump_total s) t d = (Some v, s1)"
  shows "get_market_cap w s t d = ((Some v, ''yahoo_historical''), bump_yahoo_historical s1)"
    and "invoked (new_calls s (snd (get_market_cap w s t d))) = [''_get_yahoo_historical'']"
    and "calls (snd (get_market_cap w s t d)) = calls s1"
proof -
  show g: "get_market_cap w s t d = ((Some v, ''yahoo_historical''), bump_yahoo_historical s1)"
    by (simp add: get_market_cap_def Let_def y)
  from yh_frame[OF y] obtain cs where
    c: "calls s1 = calls (bump_total s) @ cs" "invoked cs = [''_get_yahoo_historical'']"
    by blast
  from c(1) have "new_calls s (bump_yahoo_historical s1) = cs"
    by (intro new_calls_append) (simp add: bump_fields bump_simps)
  with c(2) show "invoked (new_calls s (snd (get_market_cap w s t d))) = [''_get_yahoo_historical'']"
    by (simp add: g)
  show "calls (snd (get_market_cap w s t d)) = calls s1"
    by (simp add: g bump_fields)
qed

text \<open>
  Claim C1. \<^verbatim>\<open>get_market_cap\<close> is the resolver of the specification: the four strategies
  in the order yahoo_historical, fmp_api, calculated, yahoo_current, the second one only
  when a key is given and the API is marked working, the first value returned with the name
  of its strategy, \<open>none\<close> when all fail. The strategy methods a call enters are, in this
  order, a prefix of that list which ends with the strategy that produced the value.
  In particular, where \<^verbatim>\<open>_get_yahoo_historical\<close> returns a value, that value is returned
  with the name yahoo_historical, no other strategy method is entered, and no request is
  made beyond those of the first strategy.
\<close>

theorem strategies_in_fixed_order:
  "get_market_cap w s t d = resolve_spec w s t d \<and>
   (case get_market_cap w s t d of
      ((r, src), s') \<Rightarrow>
        (src = ''yahoo_historical'' \<and>
           invoked (new_calls s s') = [''_get_yahoo_historical'']) \<or>
        (src = ''fmp_api'' \<and>
           invoked (new_calls s s') = [''_get_yahoo_historical'', ''_get_from_fmp'']) \<or>
        (src = ''calculated'' \<and>
           invoked (new_calls s s') =
             [''_get_yahoo_historical''] @ fmp_part s @ [''_calculate_from_yahoo_data'']) \<or>
        ((src = ''yahoo_current'' \<or> src = ''none'') \<and>
           invoked (new_calls s s') =
             [''_get_yahoo_historical''] @ fmp_part s @
             [''_calculate_from_yahoo_data'', ''_get_yahoo_current''])) \<and>
   (get_yahoo_historical w (bump_total s) t d = (Some v, s1) \<longrightarrow>
      get_market_cap w s t d = ((Some v, ''yahoo_historical''), bump_yahoo_historical s1) \<and>
      invoked (new_calls s (snd (get_market_cap w s t d))) = [''_get_yahoo_historical''] \<and>
      calls (snd (get_market_cap w s t d)) = calls s1)"
proof (intro conjI impI)
  show "get_market_cap w s t d = resolve_spec w s t d"
    by (rule get_market_cap_refines)
next
  obtain r src s' where g: "get_market_cap w s t d = ((r, src), s')"
    by (metis prod.collapse)
  from get_market_cap_invoked[OF g] obtain cs where
    c: "calls s' = calls s @ cs"
    and i: "(src = ''yahoo_historical'' \<and> invoked cs = [''_get_yahoo_historical'']) \<or>
     (src = ''fmp_api'' \<and> invoked cs = [''_get_yahoo_historical'', ''_get_from_fmp'']) \<or>
     (src = ''calculated'' \<and>
        invoked cs = [''_get_yahoo_historical''] @ fmp_part s @ [''_calculate_from_yahoo_data'']) \<or>
     ((src = ''yahoo_current'' \<or> src = ''none'') \<and>
        invoked cs = [''_get_yahoo_historical''] @ fmp_part s @
                     [''_calculate_from_yahoo_data'', ''_get_yahoo_current''])"
    by (elim exE conjE)
  from c have n: "new_calls s s' = cs" by (rule new_calls_append)
  show "case get_market_cap w s t d of
      ((r, src), s') \<Rightarrow>
        (src = ''yahoo_historical'' \<and>
           invoked (new_calls s s') = [''_get_yahoo_historical'']) \<or>
        (src = ''fmp_api'' \<and>
           invoked (new_calls s s') = [''_get_yahoo_historical'', ''_get_from_fmp'']) \<or>
        (src = ''calculated'' \<and>
           invoked (new_calls s s') =
             [''_get_yahoo_historical''] @ fmp_part s @ [''_calculate_from_yahoo_data'']) \<or>
        ((src = ''yahoo_current'' \<or> src = ''none'') \<and>
           invoked (new_calls s s') =
             [''_get_yahoo_historical''] @ fmp_part s @
             [''_calculate_from_yahoo_data'', ''_get_yahoo_current''])"
    unfolding g prod.case n by (rule i)
next
  assume y: "get_yahoo_historical w (bump_total s) t d = (Some v, s1)"
  show "get_market_cap w s t d = ((Some v, ''yahoo_historical''), bump_yahoo_historical s1)"
    by (rule first_strategy_wins(1)[OF y])
  show "invoked (new_calls s (snd (get_market_cap w s t d))) = [''_get_yahoo_historical'']"
    by (rule first_strategy_wins(2)[OF y])
  show "calls (snd (get_market_cap w s t d)) = calls s1"
    by (rule first_strategy_wins(3)[OF y])
qed

lemma quote_world_first_strategy:
  "\<exists>s1. get_yahoo_historical (quote_world 10 5000000)
          (bump_total (init_scraper (quote_world 10 5000000) None None)) ''ABCD'' ''2020-06-15'' =
        (Some 50000000, s1)"
proof -
  have "fst (get_yahoo_historical (quote_world 10 5000000)
          (bump_total (init_scraper (quote_world 10 5000000) None None)) ''ABCD'' ''2020-06-15'') =
        Some 50000000"
    by (simp add: yh_quote_world)
  then show ?thesis by (metis prod.collapse)
qed

theorem strategies_in_fixed_order_witness:
  "(\<exists>s1. get_yahoo_historical (quote_world 10 5000000)
          (bump_total (init_scraper (quote_world 10 5000000) None None)) ''ABCD'' ''2020-06-15'' =
        (Some 50000000, s1)) \<and>
   fst (get_market_cap (quote_world 10 5000000) (init_scraper (quote_world 10 5000000) None None)
          ''ABCD'' ''2020-06-15'') = (Some 50000000, ''yahoo_historical'') \<and>
   invoked (new_calls (init_scraper (quote_world 10 5000000) None None)
      (snd (get_market_cap (quote_world 10 5000000)
              (init_scraper (quote_world 10 5000000) None None) ''ABCD'' ''2020-06-15''))) =
     [''_get_yahoo_historical'']"
proof -
  let ?w = "quote_world 10 5000000"
  let ?s = "init_scraper ?w None None"
  from quote_world_first_strategy obtain s1 where
    y: "get_yahoo_historical ?w (bump_total ?s) ''ABCD'' ''2020-06-15'' = (Some 50000000, s1)" ..
  note th = strategies_in_fixed_order[where w = ?w and s = ?s and t = "''ABCD''"
      and d = "''2020-06-15''" and v = 50000000 and ?s1.0 = s1,
      THEN conjunct2, THEN conjunct2, rule_format, OF y]
  from th have a: "fst (get_market_cap ?w ?s ''ABCD'' ''2020-06-15'') =
      (Some 50000000, ''yahoo_historical'')"
    by simp
  show ?thesis
    by (intro conjI quote_world_first_strategy a th[THEN conjunct2, THEN conjunct1])
qed

lemma fmp_quiet_refl: "\<not> fmp_api_working s \<Longrightarrow> fmp_quiet s s"
  by (simp add: fmp_quiet_def)

lemma fmp_quiet_new_calls:
  assumes "fmp_quiet s0 st"
  shows "\<not> fmp_api_working st \<and> fmp_requests (new_calls s0 st) = [] \<and>
         ''_get_from_fmp'' \<notin> set (invoked (new_calls s0 st))"
proof -
  from assms obtain cs where c: "calls st = calls s0 @ cs" "fmp_requests cs = []"
    "''_get_from_fmp'' \<notin> set (invoked cs)" and w: "\<not> fmp_api_working st"
    unfolding fmp_quiet_def by blast
  from c(1) have "new_calls s0 st = cs" by (rule new_calls_append)
  with c w show ?thesis by simp
qed

lemma fmp_quiet_extend:
  assumes q: "fmp_quiet s0 st" and w: "\<not> fmp_api_working st'"
    and c: "calls st' = calls st @ cs'" and f: "fmp_requests cs' = []"
    and i: "''_get_from_fmp'' \<notin> set (invoked cs')"
  shows "fmp_quiet s0 st'"
proof -
  from q obtain cs where cs: "calls st = calls s0 @ cs" "fmp_requests cs = []"
    "''_get_from_fmp'' \<notin> set (invoked cs)"
    unfolding fmp_quiet_def by blast
  from c cs(1) have "calls st' = calls s0 @ (cs @ cs')" by simp
  moreover from cs f have "fmp_requests (cs @ cs') = []" by (simp add: fmp_requests_append)
  moreover from cs i have "''_get_from_fmp'' \<notin> set (invoked (cs @ cs'))"
    by (simp add: invoked_append)
  ultimately show ?thesis
    unfolding fmp_quiet_def using w by blast
qed

lemma fmp_quiet_log:
  assumes "fmp_quiet s0 st" and "fmp_requests [c] = []" and "invoked [c] = []"
  shows "fmp_quiet s0 (logc c st)"
  by (rule fmp_quiet_extend[OF assms(1), of _ "[c]"])
     (use assms in \<open>simp_all add: logc_def fmp_quiet_def\<close>)

lemma fmp_quiet_resolve:
  assumes q: "fmp_quiet s0 st" and g: "get_market_cap w st t d = ((r, src), st')"
  shows "fmp_quiet s0 st'"
proof -
  from q have w: "\<not> (key_given st \<and> fmp_api_working st)"
    by (simp add: fmp_quiet_def)
  from get_market_cap_invoked[OF g] obtain cs where c: "calls st' = calls st @ cs"
    by blast
  then have n: "new_calls st st' = cs" by (rule new_calls_append)
  from q get_market_cap_post(4)[OF g] have w': "\<not> fmp_api_working st'"
    by (auto simp: fmp_quiet_def)
  from get_market_cap_post(5)[OF g w] get_market_cap_post(6)[OF g w] n
  have "fmp_requests cs = []" "''_get_from_fmp'' \<notin> set (invoked cs)"
    by simp_all
  with q w' c show ?thesis by (rule fmp_quiet_extend)
qed

lemma fmp_quiet_lookup:
  assumes q: "fmp_quiet s0 st" and g: "get_ticker_exchange w st t = (r, st')"
  shows "fmp_quiet s0 st'"
proof -
  from q get_ticker_exchange_frame(2)[OF g] have w': "\<not> fmp_api_working st'"
    by (simp add: fmp_quiet_def)
  from get_ticker_exchange_frame(5)[OF g]
  show ?thesis
  proof
    assume "calls st' = calls st"
    then have "calls st' = calls st @ []" by simp
    with q w' show ?thesis by (rule fmp_quiet_extend) simp_all
  next
    assume "calls st' = calls st @ [YfInfo t]"
    with q w' show ?thesis by (rule fmp_quiet_extend) simp_all
  qed
qed

lemma fmp_quiet_kept: "kept_by_steps w m (\<lambda>al sm st. fmp_quiet s0 st)"
proof (rule kept_by_stepsI)
  fix al sm c and st :: state
  assume "fmp_quiet s0 st"
  then show "fmp_quiet s0 (logc (SecSubmissions c) st)" by (rule fmp_quiet_log) simp_all
next
  fix al sm c and st :: state
  assume "fmp_quiet s0 st"
  then show "fmp_quiet s0 (logc (SecGet c) st)" by (rule fmp_quiet_log) simp_all
next
  fix al sm tk ex s1 and st :: state
  assume "fmp_quiet s0 st" "get_ticker_exchange w st tk = (ex, s1)"
  then show "fmp_quiet s0 s1" by (rule fmp_quiet_lookup)
next
  fix al sm tk ex s1 cap src s2 and st :: state and f :: filing_info
  assume q: "fmp_quiet s0 st" and g: "get_ticker_exchange w st tk = (Some ex, s1)"
    and c: "get_market_cap w s1 tk (filing_date f) = ((cap, src), s2)"
  from fmp_quiet_resolve[OF fmp_quiet_lookup[OF q g] c] show "fmp_quiet s0 s2" .
qed

lemma fmp_quiet_resolve_many:
  "fmp_quiet s0 st \<Longrightarrow> fmp_quiet s0 (resolve_many w st requests)"
proof (induction w st requests rule: resolve_many.induct)
  case (1 w s)
  then show ?case by simp
next
  case (2 w s t d rest)
  obtain r src s' where g: "get_market_cap w s t d = ((r, src), s')"
    by (metis prod.collapse)
  from fmp_quiet_resolve[OF "2.prems" g] have "fmp_quiet s0 s'" .
  with "2.IH" g show ?case by simp
qed

lemma fmp_status_effect:
  assumes "key_given s" and "fmp_get w (calls s @ [Invoke ''_get_from_fmp'']) t = Some resp"
  shows "status_code resp = 401 \<or> status_code resp = 429 \<Longrightarrow>
           get_from_fmp w s t d =
             (None, (logc (FmpGet t) (logc (Invoke ''_get_from_fmp'') s))
                      \<lparr>fmp_api_working := False\<rparr>)"
    and "status_code resp = 403 \<Longrightarrow>
           get_from_fmp w s t d = (None, logc (FmpGet t) (logc (Invoke ''_get_from_fmp'') s))"
  using assms by (auto simp: get_from_fmp_def Let_def logc_def key_given_def)

lemma resolve_after_fmp_miss:
  assumes k: "key_given s" "fmp_api_working s"
    and y: "get_yahoo_historical w (bump_total s) t d = (None, s1)"
    and f: "get_from_fmp w s1 t d = (None, s2)"
  shows "fmp_api_working (snd (get_market_cap w s t d)) = fmp_api_working s2"
proof -
  from yh_frame[OF y] k have k1: "key_given s1" "fmp_api_working s1"
    by (auto simp: bump_simps dest: key_given_same)
  obtain r3 s3 where c3: "calculate_from_yahoo_data w s2 t d = (r3, s3)"
    by (metis prod.collapse)
  obtain r4 s4 where c4: "get_yahoo_current w s3 t = (r4, s4)"
    by (metis prod.collapse)
  from calc_frame[OF c3] have w3: "fmp_api_working s3 = fmp_api_working s2" by simp
  from yc_frame[OF c4] w3 have w4: "fmp_api_working s4 = fmp_api_working s2" by simp
  show ?thesis
    by (cases r3; cases r4)
       (simp_all add: get_market_cap_def Let_def y k1 f c3 c4 w3 w4 bump_fields)
qed

lemma resolve_fmp_status:
  assumes k: "key_given s" "fmp_api_working s"
    and y: "get_yahoo_historical w (bump_total s) t d = (None, s1)"
    and f: "fmp_get w (calls s1 @ [Invoke ''_get_from_fmp'']) t = Some resp"
  shows "status_code resp = 401 \<or> status_code resp = 429 \<Longrightarrow>
           \<not> fmp_api_working (snd (get_market_cap w s t d))"
    and "status_code resp = 403 \<Longrightarrow> fmp_api_working (snd (get_market_cap w s t d))"
proof -
  from yh_frame[OF y] k have k1: "key_given s1" "fmp_api_working s1"
    by (auto simp: bump_simps dest: key_given_same)
  {
    assume st: "status_code resp = 401 \<or> status_code resp = 429"
    note e = fmp_status_effect(1)[OF k1(1) f st, of d]
    from resolve_after_fmp_miss[OF k y e]
    show "\<not> fmp_api_working (snd (get_market_cap w s t d))" by simp
  }
  {
    assume st: "status_code resp = 403"
    note e = fmp_status_effect(2)[OF k1(1) f st, of d]
    from resolve_after_fmp_miss[OF k y e] k1(2)
    show "fmp_api_working (snd (get_market_cap w s t d))" by (simp add: logc_def)
  }
qed

text \<open>
  Claim C5. A call of \<^verbatim>\<open>_get_from_fmp\<close> that receives status 401 or 429 returns \<^verbatim>\<open>None\<close>
  and clears \<^verbatim>\<open>fmp_api_working\<close>; with status 403 it returns \<^verbatim>\<open>None\<close> and leaves the flag
  as it was. The same holds for the call of \<^verbatim>\<open>get_market_cap\<close> around it: after a 401 or
  429 the flag is cleared when the call returns, after a 403 it is still set. Once the flag
  is cleared it stays cleared: in every sequence of later \<^verbatim>\<open>get_market_cap\<close> calls, and in
  every run of the collector from such a state, the method \<^verbatim>\<open>_get_from_fmp\<close> is not entered
  and no request is sent to the FMP API.
\<close>

theorem fmp_disabled_after_401_429:
  "(key_given s \<longrightarrow> fmp_get w (calls s @ [Invoke ''_get_from_fmp'']) t = Some resp \<longrightarrow>
      status_code resp = 401 \<or> status_code resp = 429 \<longrightarrow>
      fst (get_from_fmp w s t d) = None \<and> \<not> fmp_api_working (snd (get_from_fmp w s t d))) \<and>
   (key_given s \<longrightarrow> fmp_get w (calls s @ [Invoke ''_get_from_fmp'']) t = Some resp \<longrightarrow>
      status_code resp = 403 \<longrightarrow>
      fst (get_from_fmp w s t d) = None \<and>
      fmp_api_working (snd (get_from_fmp w s t d)) = fmp_api_working s) \<and>
   (key_given s \<longrightarrow> fmp_api_working s \<longrightarrow>
      get_yahoo_historical w (bump_total s) t d = (None, s1) \<longrightarrow>
      fmp_get w (calls s1 @ [Invoke ''_get_from_fmp'']) t = Some resp \<longrightarrow>
      status_code resp = 401 \<or> status_code resp = 429 \<longrightarrow>
      \<not> fmp_api_working (snd (get_market_cap w s t d))) \<and>
   (key_given s \<longrightarrow> fmp_api_working s \<longrightarrow>
      get_yahoo_historical w (bump_total s) t d = (None, s1) \<longrightarrow>
      fmp_get w (calls s1 @ [Invoke ''_get_from_fmp'']) t = Some resp \<longrightarrow>
      status_code resp = 403 \<longrightarrow>
      fmp_api_working (snd (get_market_cap w s t d))) \<and>
   (\<not> fmp_api_working s \<longrightarrow>
      \<not> fmp_api_working (resolve_many w s requests) \<and>
      fmp_requests (new_calls s (resolve_many w s requests)) = [] \<and>
      ''_get_from_fmp'' \<notin> set (invoked (new_calls s (resolve_many w s requests)))) \<and>
   (\<not> fmp_api_working s \<longrightarrow>
      find_form25_filings_with_market_cap w s start_date end_date T = Inr (res, s') \<longrightarrow>
      \<not> fmp_api_working s' \<and> fmp_requests (new_calls s s') = [] \<and>
      ''_get_from_fmp'' \<notin> set (invoked (new_calls s s')))"
proof (intro conjI impI)
  assume k: "key_given s" and f: "fmp_get w (calls s @ [Invoke ''_get_from_fmp'']) t = Some resp"
    and st: "status_code resp = 401 \<or> status_code resp = 429"
  note e = fmp_status_effect(1)[OF k f st, of d]
  show "fst (get_from_fmp w s t d) = None" by (simp add: e)
  show "\<not> fmp_api_working (snd (get_from_fmp w s t d))" by (simp add: e)
next
  assume k: "key_given s" and f: "fmp_get w (calls s @ [Invoke ''_get_from_fmp'']) t = Some resp"
    and st: "status_code resp = 403"
  note e = fmp_status_effect(2)[OF k f st, of d]
  show "fst (get_from_fmp w s t d) = None" by (simp add: e)
  show "fmp_api_working (snd (get_from_fmp w s t d)) = fmp_api_working s"
    by (simp add: e logc_def)
next
  assume "key_given s" "fmp_api_working s"
    "get_yahoo_historical w (bump_total s) t d = (None, s1)"
    "fmp_get w (calls s1 @ [Invoke ''_get_from_fmp'']) t = Some resp"
    "status_code resp = 401 \<or> status_code resp = 429"
  then show "\<not> fmp_api_working (snd (get_market_cap w s t d))"
    by (rule resolve_fmp_status(1))
next
  assume "key_given s" "fmp_api_working s"
    "get_yahoo_historical w (bump_total s) t d = (None, s1)"
    "fmp_get w (calls s1 @ [Invoke ''_get_from_fmp'']) t = Some resp"
    "status_code resp = 403"
  then show "fmp_api_working (snd (get_market_cap w s t d))"
    by (rule resolve_fmp_status(2))
next
  assume "\<not> fmp_api_working s"
  then have "fmp_quiet s (resolve_many w s requests)"
    by (intro fmp_quiet_resolve_many fmp_quiet_refl)
  from fmp_quiet_new_calls[OF this]
  show "\<not> fmp_api_working (resolve_many w s requests)"
    "fmp_requests (new_calls s (resolve_many w s requests)) = []"
    "''_get_from_fmp'' \<notin> set (invoked (new_calls s (resolve_many w s requests)))"
    by simp_all
next
  assume n: "\<not> fmp_api_working s"
    and run: "find_form25_filings_with_market_cap w s start_date end_date T = Inr (res, s')"
  obtain al sm where res: "res = (al, sm)" by (cases res)
  from n have "fmp_quiet s s" by (rule fmp_quiet_refl)
  with run[unfolded res] have "fmp_quiet s s'"
    by (rule collection_invariant[OF _ _ fmp_quiet_kept])
  from fmp_quiet_new_calls[OF this]
  show "\<not> fmp_api_working s'" "fmp_requests (new_calls s s') = []"
    "''_get_from_fmp'' \<notin> set (invoked (new_calls s s'))"
    by simp_all
qed

lemma fmp_world_start:
  "key_given (init_scraper (fmp_status_world code) (Some ''demo'') None)"
  "fmp_api_working (init_scraper (fmp_status_world code) (Some ''demo'') None)"
  "calls (init_scraper (fmp_status_world code) (Some ''demo'') None) = [FmpGet ''AAPL'']"
  by (simp_all add: init_scraper_def key_given_def validate_fmp_api_key_def
      fmp_status_world_def Let_def logc_def)

lemma fmp_world_first_strategy:
  "\<exists>s1. get_yahoo_historical (fmp_status_world code)
          (bump_total (init_scraper (fmp_status_world code) (Some ''demo'') None))
          ''ABCD'' ''2020-06-15'' = (None, s1) \<and>
        fmp_get (fmp_status_world code) (calls s1 @ [Invoke ''_get_from_fmp'']) ''ABCD'' =
          Some \<lparr>status_code = code, json = None\<rparr>"
  by (simp add: get_yahoo_historical_def fmp_status_world_def Let_def logc_def)

theorem fmp_disabled_after_401_429_witness:
  "key_given (init_scraper (fmp_status_world 401) (Some ''demo'') None) \<and>
   fmp_api_working (init_scraper (fmp_status_world 401) (Some ''demo'') None) \<and>
   \<not> fmp_api_working
       (snd (get_market_cap (fmp_status_world 401)
               (init_scraper (fmp_status_world 401) (Some ''demo'') None)
               ''ABCD'' ''2020-06-15'')) \<and>
   fmp_requests
     (new_calls
        (snd (get_market_cap (fmp_status_world 401)
                (init_scraper (fmp_status_world 401) (Some ''demo'') None)
                ''ABCD'' ''2020-06-15''))
        (resolve_many (fmp_status_world 401)
           (snd (get_market_cap (fmp_status_world 401)
                   (init_scraper (fmp_status_world 401) (Some ''demo'') None)
                   ''ABCD'' ''2020-06-15''))
           [(''EFGH'', ''2020-06-16''), (''IJKL'', ''2020-06-17'')])) = [] \<and>
   fmp_api_working
       (snd (get_market_cap (fmp_status_world 403)
               (init_scraper (fmp_status_world 403) (Some ''demo'') None)
               ''ABCD'' ''2020-06-15''))"
proof -
  let ?w = "fmp_status_world 401"
  let ?s = "init_scraper ?w (Some ''demo'') None"
  let ?s' = "snd (get_market_cap ?w ?s ''ABCD'' ''2020-06-15'')"
  from fmp_world_first_strategy[of 401] obtain s1 where
    y: "get_yahoo_historical ?w (bump_total ?s) ''ABCD'' ''2020-06-15'' = (None, s1)"
    and f: "fmp_get ?w (calls s1 @ [Invoke ''_get_from_fmp'']) ''ABCD'' =
          Some \<lparr>status_code = 401, json = None\<rparr>"
    by blast
  have st: "status_code \<lparr>status_code = 401, json = None\<rparr> = 401 \<or>
            status_code \<lparr>status_code = 401, json = None\<rparr> = 429"
    by simp
  note a = fmp_disabled_after_401_429[where w = ?w and s = ?s and t = "''ABCD''"
      and d = "''2020-06-15''" and ?s1.0 = s1
      and resp = "\<lparr>status_code = 401, json = None\<rparr>",
      THEN conjunct2, THEN conjunct2, THEN conjunct1, rule_format,
      OF fmp_world_start(1) fmp_world_start(2) y f st]
  note b = fmp_disabled_after_401_429[where w = ?w and s = ?s'
      and requests = "[(''EFGH'', ''2020-06-16''), (''IJKL'', ''2020-06-17'')]",
      THEN conjunct2, THEN conjunct2, THEN conjunct2, THEN conjunct2, THEN conjunct1,
      rule_format, OF a, THEN conjunct2, THEN conjunct1]
  let ?w3 = "fmp_status_world 403"
  let ?s3 = "init_scraper ?w3 (Some ''demo'') None"
  from fmp_world_first_strategy[of 403] obtain s3 where
    y3: "get_yahoo_historical ?w3 (bump_total ?s3) ''ABCD'' ''2020-06-15'' = (None, s3)"
    and f3: "fmp_get ?w3 (calls s3 @ [Invoke ''_get_from_fmp'']) ''ABCD'' =
          Some \<lparr>status_code = 403, json = None\<rparr>"
    by blast
  have st3: "status_code \<lparr>status_code = 403, json = None\<rparr> = 403"
    by simp
  note c = fmp_disabled_after_401_429[where w = ?w3 and s = ?s3 and t = "''ABCD''"
      and d = "''2020-06-15''" and ?s1.0 = s3
      and resp = "\<lparr>status_code = 403, json = None\<rparr>",
      THEN conjunct2, THEN conjunct2, THEN conjunct2, THEN conjunct1, rule_format,
      OF fmp_world_start(1) fmp_world_start(2) y3 f3 st3]
  show ?thesis
    by (intro conjI fmp_world_start(1) fmp_world_start(2) a b c)
qed

section \<open>Failure of the registry\<close>

lemma try_endpoint_failed:
  "endpoint_failed (sec_get w (calls s) url) \<Longrightarrow>
     try_endpoints w s (url # rest) = try_endpoints w (logc (SecGet url) s) rest"
  by (simp add: endpoint_failed_def Let_def split: option.split_asm)

lemma no_registry:
  assumes "all_endpoints_fail w s"
  shows "\<exists>s1. get_company_tickers w s = ([], s1)"
proof -
  let ?u1 = "''https://www.sec.gov/files/company_tickers.json''"
  let ?u2 = "''https://data.sec.gov/files/company_tickers.json''"
  let ?u3 = "''https://www.sec.gov/files/company_tickers_exchange.json''"
  from assms have f1: "endpoint_failed (sec_get w (calls s) ?u1)"
    and f2: "endpoint_failed (sec_get w (calls (logc (SecGet ?u1) s)) ?u2)"
    and f3: "endpoint_failed (sec_get w (calls (logc (SecGet ?u2) (logc (SecGet ?u1) s))) ?u3)"
    by (simp_all add: all_endpoints_fail_def logc_def)
  have "get_company_tickers w s = try_endpoints w s [?u1, ?u2, ?u3]"
    by (simp add: get_company_tickers_def endpoints_def)
  also have "\<dots> = try_endpoints w (logc (SecGet ?u1) s) [?u2, ?u3]"
    by (rule try_endpoint_failed[OF f1])
  also have "\<dots> = try_endpoints w (logc (SecGet ?u2) (logc (SecGet ?u1) s)) [?u3]"
    by (rule try_endpoint_failed[OF f2])
  also have "\<dots> = try_endpoints w (logc (SecGet ?u3) (logc (SecGet ?u2) (logc (SecGet ?u1) s))) []"
    by (rule try_endpoint_failed[OF f3])
  finally show ?thesis by simp
qed

lemma no_registry_no_events:
  assumes f: "all_endpoints_fail w s"
    and d: "strptime w start_date \<noteq> None" "strptime w end_date \<noteq> None"
  shows "\<exists>s'. find_form25_filings_with_market_cap w s start_date end_date T = Inr (([], []), s')"
proof -
  from no_registry[OF f] obtain s1 where r: "get_company_tickers w s = ([], s1)" ..
  from d obtain a b where "strptime w start_date = Some a" "strptime w end_date = Some b"
    by blast
  with r show ?thesis
    by (simp add: find_form25_filings_with_market_cap_def)
qed

text \<open>
  Claim C7. When the three registry endpoints fail, \<^verbatim>\<open>get_company_tickers\<close> returns the
  empty mapping; the collection, given dates that parse, returns two empty lists; and
  \<^verbatim>\<open>main\<close>, whose configured dates are 2015-01-01 and 2024-12-31, returns without writing
  a file.
\<close>

theorem no_registry_no_output:
  "(all_endpoints_fail w s \<longrightarrow> fst (get_company_tickers w s) = []) \<and>
   (all_endpoints_fail w s \<longrightarrow> strptime w start_date \<noteq> None \<longrightarrow>
      strptime w end_date \<noteq> None \<longrightarrow>
      (\<exists>s'. find_form25_filings_with_market_cap w s start_date end_date T =
               Inr (([], []), s'))) \<and>
   (all_endpoints_fail w
       (init_scraper w None (Some [''NYSE'', ''NASDAQ'', ''AMEX'', ''NYSE AMERICAN''])) \<longrightarrow>
      strptime w ''2015-01-01'' \<noteq> None \<longrightarrow> strptime w ''2024-12-31'' \<noteq> None \<longrightarrow>
      main w sort_values output_dir = Inr [])"
proof (intro conjI impI)
  assume "all_endpoints_fail w s"
  from no_registry[OF this] show "fst (get_company_tickers w s) = []"
    by auto
next
  assume "all_endpoints_fail w s" "strptime w start_date \<noteq> None" "strptime w end_date \<noteq> None"
  then show "\<exists>s'. find_form25_filings_with_market_cap w s start_date end_date T =
               Inr (([], []), s')"
    by (rule no_registry_no_events)
next
  let ?s = "init_scraper w None (Some [''NYSE'', ''NASDAQ'', ''AMEX'', ''NYSE AMERICAN''])"
  assume "all_endpoints_fail w ?s" "strptime w ''2015-01-01'' \<noteq> None"
    "strptime w ''2024-12-31'' \<noteq> None"
  from no_registry_no_events[OF this, of 2000000000] obtain s' where
    "find_form25_filings_with_market_cap w ?s ''2015-01-01'' ''2024-12-31'' 2000000000 =
       Inr (([], []), s')" ..
  then show "main w sort_values output_dir = Inr []"
    by (simp add: main_def)
qed

lemma quote_world_endpoints_fail: "all_endpoints_fail (quote_world p sh) s"
  by (simp add: all_endpoints_fail_def endpoint_failed_def quote_world_def)

lemma quote_world_strptime: "strptime (quote_world p sh) d \<noteq> None"
  by (simp add: quote_world_def)

theorem no_registry_no_output_witness:
  "all_endpoints_fail (quote_world 10 5000000)
     (init_scraper (quote_world 10 5000000) None
        (Some [''NYSE'', ''NASDAQ'', ''AMEX'', ''NYSE AMERICAN''])) \<and>
   strptime (quote_world 10 5000000) ''2015-01-01'' \<noteq> None \<and>
   strptime (quote_world 10 5000000) ''2024-12-31'' \<noteq> None \<and>
   fst (get_company_tickers (quote_world 10 5000000)
          (init_scraper (quote_world 10 5000000) None
             (Some [''NYSE'', ''NASDAQ'', ''AMEX'', ''NYSE AMERICAN'']))) = [] \<and>
   (\<exists>s'. find_form25_filings_with_market_cap (quote_world 10 5000000)
            (init_scraper (quote_world 10 5000000) None
               (Some [''NYSE'', ''NASDAQ'', ''AMEX'', ''NYSE AMERICAN'']))
            ''2015-01-01'' ''2024-12-31'' 2000000000 = Inr (([], []), s')) \<and>
   main (quote_world 10 5000000) sort_values_descending ''outputs'' = Inr []"
proof -
  let ?w = "quote_world 10 5000000"
  let ?s = "init_scraper ?w None (Some [''NYSE'', ''NASDAQ'', ''AMEX'', ''NYSE AMERICAN''])"
  note th = no_registry_no_output[where w = ?w and s = ?s and start_date = "''2015-01-01''"
      and end_date = "''2024-12-31''" and T = 2000000000
      and sort_values = sort_values_descending and output_dir = "''outputs''"]
  note a = th[THEN conjunct1, rule_format, OF quote_world_endpoints_fail]
  note b = th[THEN conjunct2, THEN conjunct1, rule_format,
      OF quote_world_endpoints_fail quote_world_strptime quote_world_strptime]
  note c = th[THEN conjunct2, THEN conjunct2, rule_format,
      OF quote_world_endpoints_fail quote_world_strptime quote_world_strptime]
  show ?thesis
    by (intro conjI quote_world_endpoints_fail quote_world_strptime a b c)
qed

end
